theory Spec2Isabelle
  imports Complex_Main
begin

section \<open>Data model (prisma schema)\<close>

text \<open>
  The store is the set of collections the order workflow touches. Each collection is a
  list of rows in insertion order. An ObjectId is abstracted to a natural number, and the
  ids the store generates (\<open>@default(auto())\<close>) are taken from the counter \<open>next_id\<close>.
  Prisma's \<open>Float\<close> columns (price, totalAmount) hold IEEE double-precision numbers,
  as JavaScript numbers do; \<open>Int\<close> columns are unbounded integers.
\<close>

type_synonym ident = nat

subsection \<open>Double-precision numbers\<close>

text \<open>
  A double is a rational that the binary64 format represents, an infinity, or NaN; the
  two zeros of the format are one value here. \<open>round_double\<close> rounds a rational to the
  nearest double, ties to the even significand: the significand has 53 bits, the least
  exponent of the last place is -1074 (subnormal numbers), and a magnitude that rounds to
  \<open>2 ^ 1024\<close> or more is an infinity. \<open>fadd\<close> and \<open>fmul\<close> are the JavaScript
  operators \<open>+\<close> and \<open>*\<close> on numbers, which round the exact result.
\<close>

datatype double = Finite rat | PosInf | NegInf | NaN

definition pow2 :: "int \<Rightarrow> rat" where
  "pow2 e = (if 0 \<le> e then 2 ^ nat e else 1 / 2 ^ nat (- e))"

function bitlen :: "int \<Rightarrow> int" where
  "bitlen n = (if n \<le> 0 then 0 else 1 + bitlen (n div 2))"
  by pat_completeness auto
termination
  by (relation "measure nat") auto

declare bitlen.simps [simp del]

text \<open>For \<open>0 < a\<close>, the exponent \<open>e\<close> with \<open>2 ^ e \<le> a < 2 ^ (e + 1)\<close>.\<close>

definition floor_log2 :: "rat \<Rightarrow> int" where
  "floor_log2 a = (if 1 \<le> a then bitlen \<lfloor>a\<rfloor> - 1 else - bitlen (\<lceil>1 / a\<rceil> - 1))"

definition round_half_even :: "rat \<Rightarrow> int" where
  "round_half_even x =
     (let n = \<lfloor>x\<rfloor>; r = x - of_int n
      in if r < 1 / 2 then n else if 1 / 2 < r then n + 1 else if even n then n else n + 1)"

definition round_double :: "rat \<Rightarrow> double" where
  "round_double x =
     (if x = 0 then Finite 0
      else
        let a = \<bar>x\<bar>;
            k = max (floor_log2 a - 52) (- 1074);
            n = round_half_even (a / pow2 k)
        in if 971 < k \<or> (k = 971 \<and> 9007199254740992 \<le> n)
           then (if 0 < x then PosInf else NegInf)
           else Finite (if 0 < x then of_int n * pow2 k else - (of_int n * pow2 k)))"

fun fadd :: "double \<Rightarrow> double \<Rightarrow> double" where
  "fadd (Finite x) (Finite y) = round_double (x + y)"
| "fadd NaN _ = NaN"
| "fadd _ NaN = NaN"
| "fadd PosInf NegInf = NaN"
| "fadd NegInf PosInf = NaN"
| "fadd PosInf _ = PosInf"
| "fadd NegInf _ = NegInf"
| "fadd _ PosInf = PosInf"
| "fadd _ NegInf = NegInf"

fun fmul :: "double \<Rightarrow> double \<Rightarrow> double" where
  "fmul (Finite x) (Finite y) = round_double (x * y)"
| "fmul NaN _ = NaN"
| "fmul _ NaN = NaN"
| "fmul PosInf (Finite y) = (if y = 0 then NaN else if 0 < y then PosInf else NegInf)"
| "fmul NegInf (Finite y) = (if y = 0 then NaN else if 0 < y then NegInf else PosInf)"
| "fmul (Finite x) PosInf = (if x = 0 then NaN else if 0 < x then PosInf else NegInf)"
| "fmul (Finite x) NegInf = (if x = 0 then NaN else if 0 < x then NegInf else PosInf)"
| "fmul PosInf PosInf = PosInf"
| "fmul PosInf NegInf = NegInf"
| "fmul NegInf PosInf = NegInf"
| "fmul NegInf NegInf = PosInf"

text \<open>An \<open>Int\<close> column read into a JavaScript number.\<close>

definition double_of_int :: "int \<Rightarrow> double" where
  "double_of_int i = round_double (of_int i)"

subsection \<open>Rows\<close>

datatype OrderStatus = PENDING | PROCESSING | SHIPPED | DELIVERED | CANCELLED

record User =
  user_id :: ident
  user_email :: string
  user_name :: string

record Product =
  product_id :: ident
  product_title :: string
  product_price :: double
  product_stock :: int

record Cart =
  cart_id :: ident
  cart_userId :: ident

record CartItem =
  ci_id :: ident
  ci_cartId :: ident
  ci_productId :: ident
  ci_quantity :: int
  ci_price :: double

record Order =
  order_id :: ident
  order_userId :: ident
  order_totalAmount :: double
  order_status :: OrderStatus
  order_shippingAddress :: string
  order_paymentMethod :: string

record OrderItem =
  oi_id :: ident
  oi_orderId :: ident
  oi_productId :: ident
  oi_quantity :: int
  oi_price :: double

record db =
  products :: "Product list"
  carts :: "Cart list"
  cartItems :: "CartItem list"
  orders :: "Order list"
  orderItems :: "OrderItem list"
  next_id :: nat

section \<open>Errors, logging, mail\<close>

text \<open>
  \<open>ValidationError\<close> and \<open>NotFoundError\<close> are the application's error classes
  (utils/appError), carrying their message. \<open>ZodValidationError\<close> is the
  \<open>ValidationError\<close> built from a failed \<open>safeParse\<close>: its message is zod's
  serialisation of the listed issues. \<open>PrismaError\<close> is an exception thrown by the
  client: \<open>RecordNotFound\<close> when \<open>update\<close> finds no row for its unique \<open>where\<close>,
  \<open>InconsistentResult\<close> when a required relation named in an \<open>include\<close> has no row.
  \<open>TypeError\<close> is the JavaScript exception for reading a property of \<open>null\<close>.
  The \<open>asyncHandler\<close> wrapper hands every thrown exception to the error middleware, so a
  thrown exception is a failed call.
\<close>

datatype prisma_error = RecordNotFound | InconsistentResult

datatype app_error =
    ValidationError string
  | ZodValidationError "string list"
  | NotFoundError string
  | PrismaError prisma_error
  | TypeError

datatype log_entry = LogInfo string | LogError string

record EmailOptions =
  email_to :: string
  email_subject :: string

section \<open>Number to string conversion of template literals\<close>

definition digit_char :: "nat \<Rightarrow> char" where
  "digit_char d = ''0123456789'' ! d"

fun show_nat :: "nat \<Rightarrow> string" where
  "show_nat n = (if n < 10 then [digit_char n] else show_nat (n div 10) @ [digit_char (n mod 10)])"

declare show_nat.simps [simp del]

definition show_int :: "int \<Rightarrow> string" where
  "show_int i = (if i < 0 then CHR ''-'' # show_nat (nat (- i)) else show_nat (nat i))"

section \<open>Store primitives (prisma client calls)\<close>

definition product_findUnique :: "db \<Rightarrow> ident \<Rightarrow> Product option" where
  "product_findUnique d pid = find (\<lambda>p. product_id p = pid) (products d)"

text \<open>\<open>product.update\<close> with \<open>stock: {increment: n}\<close> (\<open>decrement: n\<close> is \<open>increment: -n\<close>).\<close>

definition adjust_stock :: "ident \<Rightarrow> int \<Rightarrow> Product list \<Rightarrow> Product list" where
  "adjust_stock pid n ps =
     map (\<lambda>p. if product_id p = pid then p\<lparr>product_stock := product_stock p + n\<rparr> else p) ps"

definition product_update_stock :: "db \<Rightarrow> ident \<Rightarrow> int \<Rightarrow> app_error + db" where
  "product_update_stock d pid n =
     (case product_findUnique d pid of
        None \<Rightarrow> Inl (PrismaError RecordNotFound)
      | Some _ \<Rightarrow> Inr (d\<lparr>products := adjust_stock pid n (products d)\<rparr>))"

definition cart_findUnique :: "db \<Rightarrow> ident \<Rightarrow> Cart option" where
  "cart_findUnique d uid = find (\<lambda>c. cart_userId c = uid) (carts d)"

definition cart_create :: "db \<Rightarrow> ident \<Rightarrow> Cart \<times> db" where
  "cart_create d uid =
     (let c = \<lparr>cart_id = next_id d, cart_userId = uid\<rparr>
      in (c, d\<lparr>carts := carts d @ [c], next_id := Suc (next_id d)\<rparr>))"

definition cart_items :: "db \<Rightarrow> ident \<Rightarrow> CartItem list" where
  "cart_items d cid = filter (\<lambda>i. ci_cartId i = cid) (cartItems d)"

definition cartItem_findFirst :: "db \<Rightarrow> ident \<Rightarrow> ident \<Rightarrow> CartItem option" where
  "cartItem_findFirst d cid pid =
     find (\<lambda>i. ci_cartId i = cid \<and> ci_productId i = pid) (cartItems d)"

definition cartItem_update :: "db \<Rightarrow> ident \<Rightarrow> int \<Rightarrow> double \<Rightarrow> db" where
  "cartItem_update d iid q pr =
     d\<lparr>cartItems :=
         map (\<lambda>i. if ci_id i = iid then i\<lparr>ci_quantity := q, ci_price := pr\<rparr> else i) (cartItems d)\<rparr>"

definition cartItem_create :: "db \<Rightarrow> ident \<Rightarrow> ident \<Rightarrow> int \<Rightarrow> double \<Rightarrow> db" where
  "cartItem_create d cid pid q pr =
     d\<lparr>cartItems := cartItems d @
          [\<lparr>ci_id = next_id d, ci_cartId = cid, ci_productId = pid, ci_quantity = q, ci_price = pr\<rparr>],
       next_id := Suc (next_id d)\<rparr>"

definition cartItem_deleteMany :: "db \<Rightarrow> ident \<Rightarrow> db" where
  "cartItem_deleteMany d cid = d\<lparr>cartItems := filter (\<lambda>i. ci_cartId i \<noteq> cid) (cartItems d)\<rparr>"

text \<open>
  \<open>include: {product: ...}\<close> on a list of rows: every row is paired with the product
  it references; the relation is required, so a dangling reference is an exception.
\<close>

fun include_product :: "db \<Rightarrow> ('a \<Rightarrow> ident) \<Rightarrow> 'a list \<Rightarrow> app_error + ('a \<times> Product) list" where
  "include_product d ref [] = Inr []"
| "include_product d ref (x # xs) =
     (case product_findUnique d (ref x) of
        None \<Rightarrow> Inl (PrismaError InconsistentResult)
      | Some p \<Rightarrow>
          (case include_product d ref xs of
             Inl e \<Rightarrow> Inl e
           | Inr r \<Rightarrow> Inr ((x, p) # r)))"

type_synonym CartView = "Cart \<times> (CartItem \<times> Product) list"

text \<open>\<open>cart.findUnique({where: {userId}, include: {items: {include: {product: true}}}})\<close>\<close>

definition cart_findUnique_items :: "db \<Rightarrow> ident \<Rightarrow> app_error + CartView option" where
  "cart_findUnique_items d uid =
     (case cart_findUnique d uid of
        None \<Rightarrow> Inr None
      | Some c \<Rightarrow>
          (case include_product d ci_productId (cart_items d (cart_id c)) of
             Inl e \<Rightarrow> Inl e
           | Inr its \<Rightarrow> Inr (Some (c, its))))"

definition order_items :: "db \<Rightarrow> ident \<Rightarrow> OrderItem list" where
  "order_items d oid = filter (\<lambda>i. oi_orderId i = oid) (orderItems d)"

definition order_create :: "db \<Rightarrow> ident \<Rightarrow> double \<Rightarrow> string \<Rightarrow> string \<Rightarrow> Order \<times> db" where
  "order_create d uid amount addr pay =
     (let new = \<lparr>order_id = next_id d, order_userId = uid, order_totalAmount = amount,
               order_status = PENDING, order_shippingAddress = addr, order_paymentMethod = pay\<rparr>
      in (new, d\<lparr>orders := orders d @ [new], next_id := Suc (next_id d)\<rparr>))"

definition orderItem_create :: "db \<Rightarrow> ident \<Rightarrow> ident \<Rightarrow> int \<Rightarrow> double \<Rightarrow> db" where
  "orderItem_create d oid pid q pr =
     d\<lparr>orderItems := orderItems d @
          [\<lparr>oi_id = next_id d, oi_orderId = oid, oi_productId = pid, oi_quantity = q, oi_price = pr\<rparr>],
       next_id := Suc (next_id d)\<rparr>"

definition order_findUnique :: "db \<Rightarrow> ident \<Rightarrow> Order option" where
  "order_findUnique d oid = find (\<lambda>x. order_id x = oid) (orders d)"

text \<open>\<open>order.findFirst({where: {id, userId}})\<close>\<close>

definition order_findFirst :: "db \<Rightarrow> ident \<Rightarrow> ident \<Rightarrow> Order option" where
  "order_findFirst d oid uid = find (\<lambda>x. order_id x = oid \<and> order_userId x = uid) (orders d)"

definition order_update_status :: "db \<Rightarrow> ident \<Rightarrow> OrderStatus \<Rightarrow> app_error + Order \<times> db" where
  "order_update_status d oid st =
     (case order_findUnique d oid of
        None \<Rightarrow> Inl (PrismaError RecordNotFound)
      | Some ord \<Rightarrow>
          Inr (ord\<lparr>order_status := st\<rparr>,
               d\<lparr>orders := map (\<lambda>x. if order_id x = oid then x\<lparr>order_status := st\<rparr> else x) (orders d)\<rparr>))"

text \<open>
  The order with its line items, each with the selected fields (id, title) of its
  product, as \<open>createOrder\<close> reads it back.
\<close>

type_synonym OrderView = "Order \<times> (OrderItem \<times> ident \<times> string) list"

definition order_findUnique_items :: "db \<Rightarrow> ident \<Rightarrow> app_error + OrderView option" where
  "order_findUnique_items d oid =
     (case order_findUnique d oid of
        None \<Rightarrow> Inr None
      | Some ord \<Rightarrow>
          (case include_product d oi_productId (order_items d oid) of
             Inl e \<Rightarrow> Inl e
           | Inr its \<Rightarrow> Inr (Some (ord, map (\<lambda>(i, p). (i, product_id p, product_title p)) its))))"

text \<open>
  \<open>prisma.$transaction\<close>: the body runs on the store; when it throws, nothing it wrote
  is kept.
\<close>

definition transaction :: "db \<Rightarrow> (db \<Rightarrow> app_error + 'a \<times> db) \<Rightarrow> (app_error + 'a) \<times> db" where
  "transaction d body =
     (case body d of
        Inl e \<Rightarrow> (Inl e, d)
      | Inr (x, d') \<Rightarrow> (Inr x, d'))"

section \<open>emailService\<close>

text \<open>
  \<open>sgSend\<close> is the outcome of \<open>sgMail.send\<close> for a message: \<open>True\<close> when the promise
  resolves, \<open>False\<close> when it rejects. The HTML body of a message is not modelled.
\<close>

definition sendEmail :: "(EmailOptions \<Rightarrow> bool) \<Rightarrow> EmailOptions \<Rightarrow> bool \<times> log_entry list" where
  "sendEmail sgSend opts =
     (if sgSend opts
      then (True, [LogInfo (''Email sent successfully to '' @ email_to opts)])
      else (False, [LogError ''Error sending email:'']))"

definition sendOrderConfirmationEmail ::
    "(EmailOptions \<Rightarrow> bool) \<Rightarrow> string \<Rightarrow> string \<Rightarrow> ident \<Rightarrow> OrderView option
      \<Rightarrow> app_error + bool \<times> log_entry list" where
  "sendOrderConfirmationEmail sgSend email name orderId orderDetails =
     (case orderDetails of
        None \<Rightarrow> Inl TypeError
      | Some _ \<Rightarrow>
          Inr (sendEmail sgSend
                 \<lparr>email_to = email, email_subject = ''Order Confirmation #'' @ show_nat orderId\<rparr>))"

definition sendOrderStatusUpdateEmail ::
    "(EmailOptions \<Rightarrow> bool) \<Rightarrow> string \<Rightarrow> string \<Rightarrow> ident \<Rightarrow> OrderStatus \<Rightarrow> bool \<times> log_entry list" where
  "sendOrderStatusUpdateEmail sgSend email name orderId st =
     sendEmail sgSend \<lparr>email_to = email, email_subject = ''Order Status Update #'' @ show_nat orderId\<rparr>"

section \<open>Request validation (zod schemas)\<close>

text \<open>
  A request body is a JSON object. A field of it is absent, or holds a value of another
  type than the schema expects (\<open>WrongType\<close> carries zod's name of the type received:
  number, boolean, null, array, object, string), or holds a value of the expected type.
  \<open>safeParse\<close> checks every field, in the order of the schema, and collects the issues.
\<close>

datatype 'a field = Absent | WrongType string | Present 'a

record OrderBody =
  body_shippingAddress :: "string field"
  body_paymentMethod :: "string field"

definition zod_string_min1 :: "string \<Rightarrow> string field \<Rightarrow> string list" where
  "zod_string_min1 msg v =
     (case v of
        Absent \<Rightarrow> [''Required'']
      | WrongType t \<Rightarrow> [''Expected string, received '' @ t]
      | Present s \<Rightarrow> if length s < 1 then [msg] else [])"

definition validateOrder :: "OrderBody \<Rightarrow> string list + string \<times> string" where
  "validateOrder b =
     (let issues = zod_string_min1 ''Shipping address is required'' (body_shippingAddress b) @
                   zod_string_min1 ''Payment method is required'' (body_paymentMethod b)
      in case (body_shippingAddress b, body_paymentMethod b) of
           (Present a, Present p) \<Rightarrow> if issues = [] then Inr (a, p) else Inl issues
         | _ \<Rightarrow> Inl issues)"

text \<open>
  The string that names a product in a cart request is the empty string or the text of
  an id. The quantity is a JSON number: \<open>z.number()\<close> refuses NaN, \<open>int\<close> accepts the
  finite whole numbers and \<open>positive\<close> the numbers above zero.
\<close>

datatype id_text = Blank | IdText ident

record CartItemBody =
  body_productId :: "id_text field"
  body_quantity :: "double field"

definition zod_number_int_positive :: "double field \<Rightarrow> string list" where
  "zod_number_int_positive v =
     (case v of
        Absent \<Rightarrow> [''Required'']
      | WrongType t \<Rightarrow> [''Expected number, received '' @ t]
      | Present NaN \<Rightarrow> [''Expected number, received nan'']
      | Present PosInf \<Rightarrow> [''Quantity must be an integer'']
      | Present NegInf \<Rightarrow> [''Quantity must be an integer'', ''Quantity must be positive'']
      | Present (Finite q) \<Rightarrow>
          (if of_int \<lfloor>q\<rfloor> = q then [] else [''Quantity must be an integer'']) @
          (if 0 < q then [] else [''Quantity must be positive'']))"

definition validateCartItem :: "CartItemBody \<Rightarrow> string list + ident \<times> int" where
  "validateCartItem b =
     (let issues = (case body_productId b of
                      Absent \<Rightarrow> [''Required'']
                    | WrongType t \<Rightarrow> [''Expected string, received '' @ t]
                    | Present Blank \<Rightarrow> [''Product ID is required'']
                    | Present (IdText _) \<Rightarrow> []) @
                   zod_number_int_positive (body_quantity b)
      in case (body_productId b, body_quantity b) of
           (Present (IdText pid), Present (Finite q)) \<Rightarrow>
             if issues = [] then Inr (pid, \<lfloor>q\<rfloor>) else Inl issues
         | _ \<Rightarrow> Inl issues)"

section \<open>cartController: addToCart\<close>

text \<open>\<open>cart.findUnique({where: {id}, include: {items: {include: {product}}}})\<close>\<close>

definition cart_findUnique_id_items :: "db \<Rightarrow> ident \<Rightarrow> app_error + CartView option" where
  "cart_findUnique_id_items d cid =
     (case find (\<lambda>c. cart_id c = cid) (carts d) of
        None \<Rightarrow> Inr None
      | Some c \<Rightarrow>
          (case include_product d ci_productId (cart_items d cid) of
             Inl e \<Rightarrow> Inl e
           | Inr its \<Rightarrow> Inr (Some (c, its))))"

definition cart_reply :: "db \<Rightarrow> ident \<Rightarrow> string \<Rightarrow> app_error + CartView option \<times> string" where
  "cart_reply d cid msg =
     (case cart_findUnique_id_items d cid of
        Inl e \<Rightarrow> Inl e
      | Inr updatedCart \<Rightarrow> Inr (updatedCart, msg))"

definition addToCart :: "db \<Rightarrow> User \<Rightarrow> CartItemBody \<Rightarrow> (app_error + CartView option \<times> string) \<times> db" where
  "addToCart d user body =
     (case validateCartItem body of
        Inl issues \<Rightarrow> (Inl (ZodValidationError issues), d)
      | Inr (productId, quantity) \<Rightarrow>
          (case product_findUnique d productId of
             None \<Rightarrow> (Inl (NotFoundError ''Product not found''), d)
           | Some product \<Rightarrow>
               if quantity > product_stock product
               then (Inl (ValidationError
                       (''Not enough stock. Only '' @ show_int (product_stock product) @ '' available.'')), d)
               else
                 let (cart, d1) = (case cart_findUnique d (user_id user) of
                                     None \<Rightarrow> cart_create d (user_id user)
                                   | Some c \<Rightarrow> (c, d))
                 in (case cartItem_findFirst d1 (cart_id cart) productId of
                       Some existingItem \<Rightarrow>
                         let newQuantity = ci_quantity existingItem + quantity
                         in if newQuantity > product_stock product
                            then (Inl (ValidationError
                                    (''Cannot add more. Only '' @ show_int (product_stock product) @
                                     '' available.'')), d1)
                            else
                              let d2 = cartItem_update d1 (ci_id existingItem) newQuantity
                                         (product_price product)
                              in (cart_reply d2 (cart_id cart) ''Item quantity updated in cart'', d2)
                     | None \<Rightarrow>
                         let d2 = cartItem_create d1 (cart_id cart) productId quantity
                                    (product_price product)
                         in (cart_reply d2 (cart_id cart) ''Item added to cart'', d2))))"

section \<open>orderController: createOrder\<close>

fun checkStock :: "(CartItem \<times> Product) list \<Rightarrow> app_error option" where
  "checkStock [] = None"
| "checkStock ((item, product) # rest) =
     (if ci_quantity item > product_stock product
      then Some (ValidationError
             (product_title product @ '' has only '' @ show_int (product_stock product) @
              '' items in stock, but you requested '' @ show_int (ci_quantity item)))
      else checkStock rest)"

definition totalAmount :: "(CartItem \<times> Product) list \<Rightarrow> double" where
  "totalAmount items =
     foldl (\<lambda>sum (item, product). fadd sum (fmul (ci_price item) (double_of_int (ci_quantity item))))
       (Finite 0) items"

text \<open>
  What the handler holds when it opens the transaction: the cart and its items as read
  before the stock check, the total, and the validated request fields.
\<close>

record Checkout =
  co_cart :: Cart
  co_items :: "(CartItem \<times> Product) list"
  co_totalAmount :: double
  co_shippingAddress :: string
  co_paymentMethod :: string

definition createOrder_prepare :: "db \<Rightarrow> User \<Rightarrow> OrderBody \<Rightarrow> app_error + Checkout" where
  "createOrder_prepare d user body =
     (case validateOrder body of
        Inl issues \<Rightarrow> Inl (ZodValidationError issues)
      | Inr (shippingAddress, paymentMethod) \<Rightarrow>
          (case cart_findUnique_items d (user_id user) of
             Inl e \<Rightarrow> Inl e
           | Inr None \<Rightarrow> Inl (ValidationError ''Cart is empty'')
           | Inr (Some (cart, items)) \<Rightarrow>
               if length items = 0 then Inl (ValidationError ''Cart is empty'')
               else
                 (case checkStock items of
                    Some e \<Rightarrow> Inl e
                  | None \<Rightarrow>
                      Inr \<lparr>co_cart = cart, co_items = items, co_totalAmount = totalAmount items,
                           co_shippingAddress = shippingAddress,
                           co_paymentMethod = paymentMethod\<rparr>)))"

text \<open>The loop of the transaction: one order item and one stock decrement per cart item.\<close>

fun createOrderItems :: "db \<Rightarrow> ident \<Rightarrow> (CartItem \<times> Product) list \<Rightarrow> app_error + db" where
  "createOrderItems d oid [] = Inr d"
| "createOrderItems d oid ((item, product) # rest) =
     (case product_update_stock
             (orderItem_create d oid (ci_productId item) (ci_quantity item) (ci_price item))
             (ci_productId item) (- ci_quantity item) of
        Inl e \<Rightarrow> Inl e
      | Inr d' \<Rightarrow> createOrderItems d' oid rest)"

definition createOrder_tx :: "User \<Rightarrow> Checkout \<Rightarrow> db \<Rightarrow> app_error + Order \<times> db" where
  "createOrder_tx user co d =
     (let (newOrder, d1) = order_create d (user_id user) (co_totalAmount co)
                             (co_shippingAddress co) (co_paymentMethod co)
      in case createOrderItems d1 (order_id newOrder) (co_items co) of
           Inl e \<Rightarrow> Inl e
         | Inr d2 \<Rightarrow> Inr (newOrder, cartItem_deleteMany d2 (cart_id (co_cart co))))"

definition createOrder_commit ::
    "(EmailOptions \<Rightarrow> bool) \<Rightarrow> db \<Rightarrow> User \<Rightarrow> Checkout
      \<Rightarrow> (app_error + OrderView option) \<times> db \<times> log_entry list" where
  "createOrder_commit sgSend d user co =
     (case transaction d (createOrder_tx user co) of
        (Inl e, d') \<Rightarrow> (Inl e, d', [])
      | (Inr ord, d') \<Rightarrow>
          (case order_findUnique_items d' (order_id ord) of
             Inl e \<Rightarrow> (Inl e, d', [])
           | Inr completeOrder \<Rightarrow>
               (case sendOrderConfirmationEmail sgSend (user_email user) (user_name user)
                       (order_id ord) completeOrder of
                  Inl e \<Rightarrow> (Inl e, d', [])
                | Inr (sent, lg) \<Rightarrow> (Inr completeOrder, d', lg))))"

definition createOrder ::
    "(EmailOptions \<Rightarrow> bool) \<Rightarrow> db \<Rightarrow> User \<Rightarrow> OrderBody
      \<Rightarrow> (app_error + OrderView option) \<times> db \<times> log_entry list" where
  "createOrder sgSend d user body =
     (case createOrder_prepare d user body of
        Inl e \<Rightarrow> (Inl e, d, [])
      | Inr co \<Rightarrow> createOrder_commit sgSend d user co)"

section \<open>orderController: cancelOrder\<close>

fun returnStock :: "db \<Rightarrow> OrderItem list \<Rightarrow> app_error + db" where
  "returnStock d [] = Inr d"
| "returnStock d (item # rest) =
     (case product_update_stock d (oi_productId item) (oi_quantity item) of
        Inl e \<Rightarrow> Inl e
      | Inr d' \<Rightarrow> returnStock d' rest)"

definition cancelOrder_tx :: "ident \<Rightarrow> OrderItem list \<Rightarrow> db \<Rightarrow> app_error + Order \<times> db" where
  "cancelOrder_tx oid its d =
     (case order_update_status d oid CANCELLED of
        Inl e \<Rightarrow> Inl e
      | Inr (cancelled, d1) \<Rightarrow>
          (case returnStock d1 its of
             Inl e \<Rightarrow> Inl e
           | Inr d2 \<Rightarrow> Inr (cancelled, d2)))"

definition cancelOrder ::
    "(EmailOptions \<Rightarrow> bool) \<Rightarrow> db \<Rightarrow> User \<Rightarrow> ident \<Rightarrow> (app_error + Order) \<times> db \<times> log_entry list" where
  "cancelOrder sgSend d user oid =
     (case order_findFirst d oid (user_id user) of
        None \<Rightarrow> (Inl (NotFoundError ''Order not found''), d, [])
      | Some ord \<Rightarrow>
          if order_status ord \<noteq> PENDING \<and> order_status ord \<noteq> PROCESSING
          then (Inl (ValidationError ''Order cannot be cancelled at this stage''), d, [])
          else
            (case transaction d (cancelOrder_tx oid (order_items d oid)) of
               (Inl e, d') \<Rightarrow> (Inl e, d', [])
             | (Inr updatedOrder, d') \<Rightarrow>
                 (let (sent, lg) = sendOrderStatusUpdateEmail sgSend (user_email user)
                                     (user_name user) oid CANCELLED
                  in (Inr updatedOrder, d', lg))))"

section \<open>adminController: updateOrderStatus\<close>

definition status_of_string :: "string \<Rightarrow> OrderStatus option" where
  "status_of_string s =
     (if s = ''PENDING'' then Some PENDING
      else if s = ''PROCESSING'' then Some PROCESSING
      else if s = ''SHIPPED'' then Some SHIPPED
      else if s = ''DELIVERED'' then Some DELIVERED
      else if s = ''CANCELLED'' then Some CANCELLED
      else None)"

definition updateOrderStatus :: "db \<Rightarrow> ident \<Rightarrow> string option \<Rightarrow> (app_error + OrderView) \<times> db" where
  "updateOrderStatus d oid status =
     (case (case status of None \<Rightarrow> None | Some s \<Rightarrow> status_of_string s) of
        None \<Rightarrow> (Inl (NotFoundError ''Invalid status''), d)
      | Some st \<Rightarrow>
          (case order_findUnique d oid of
             None \<Rightarrow> (Inl (NotFoundError ''Order not found''), d)
           | Some _ \<Rightarrow>
               (case order_update_status d oid st of
                  Inl e \<Rightarrow> (Inl e, d)
                | Inr (_, d') \<Rightarrow>
                    (case order_findUnique_items d' oid of
                       Inl e \<Rightarrow> (Inl e, d')
                     | Inr None \<Rightarrow> (Inl (PrismaError RecordNotFound), d')
                     | Inr (Some view) \<Rightarrow> (Inr view, d')))))"

section \<open>Sequences of requests\<close>

datatype request =
    AddToCart User CartItemBody
  | CreateOrder User OrderBody
  | CancelOrder User ident
  | UpdateOrderStatus ident "string option"

fun handle :: "(EmailOptions \<Rightarrow> bool) \<Rightarrow> db \<Rightarrow> request \<Rightarrow> db" where
  "handle sgSend d (AddToCart user body) = snd (addToCart d user body)"
| "handle sgSend d (CreateOrder user body) = fst (snd (createOrder sgSend d user body))"
| "handle sgSend d (CancelOrder user oid) = fst (snd (cancelOrder sgSend d user oid))"
| "handle sgSend d (UpdateOrderStatus oid status) = snd (updateOrderStatus d oid status)"

definition serve :: "(EmailOptions \<Rightarrow> bool) \<Rightarrow> db \<Rightarrow> request list \<Rightarrow> db" where
  "serve sgSend d rs = foldl (handle sgSend) d rs"

section \<open>Vocabulary of the properties\<close>

text \<open>
  The definitions of this section are not code of the repository: they name the effects
  and invariants that the theorems below state about it.
\<close>

text \<open>The order items a checkout creates for the cart items \<open>its\<close>, ids counted from \<open>n\<close>.\<close>

fun line_items :: "nat \<Rightarrow> ident \<Rightarrow> CartItem list \<Rightarrow> OrderItem list" where
  "line_items n oid [] = []"
| "line_items n oid (i # is) =
     \<lparr>oi_id = n, oi_orderId = oid, oi_productId = ci_productId i, oi_quantity = ci_quantity i,
      oi_price = ci_price i\<rparr> # line_items (Suc n) oid is"

text \<open>The quantity of product \<open>pid\<close> on a list of cart items, and on a list of order items.\<close>

definition ordered_quantity :: "CartItem list \<Rightarrow> ident \<Rightarrow> int" where
  "ordered_quantity its pid = sum_list (map ci_quantity (filter (\<lambda>i. ci_productId i = pid) its))"

definition returned_quantity :: "OrderItem list \<Rightarrow> ident \<Rightarrow> int" where
  "returned_quantity its pid = sum_list (map oi_quantity (filter (\<lambda>i. oi_productId i = pid) its))"

text \<open>Every product's stock changed by the amount \<open>f\<close> gives for its id.\<close>

definition shift_stock :: "(ident \<Rightarrow> int) \<Rightarrow> Product list \<Rightarrow> Product list" where
  "shift_stock f ps = map (\<lambda>p. p\<lparr>product_stock := product_stock p + f (product_id p)\<rparr>) ps"

text \<open>
  The ids the store will generate next are unused: every order, and every order referenced
  by an order item, has an id below the counter.
\<close>

definition ids_fresh :: "db \<Rightarrow> bool" where
  "ids_fresh d \<longleftrightarrow>
     (\<forall>x \<in> set (orders d). order_id x < next_id d) \<and>
     (\<forall>i \<in> set (orderItems d). oi_orderId i < next_id d)"

text \<open>
  The amount of a cart line and of an order line, price times quantity, and the sum of a
  list of amounts; all in double arithmetic, the sum added up from 0 in the order of the
  list, as \<open>reduce\<close> does.
\<close>

definition cart_line_amount :: "CartItem \<Rightarrow> double" where
  "cart_line_amount i = fmul (ci_price i) (double_of_int (ci_quantity i))"

definition order_line_amount :: "OrderItem \<Rightarrow> double" where
  "order_line_amount i = fmul (oi_price i) (double_of_int (oi_quantity i))"

definition fsum :: "double list \<Rightarrow> double" where
  "fsum xs = foldl fadd (Finite 0) xs"

text \<open>
  What the specification's order placement writes, stated on the store \<open>d\<close> the call
  starts from, for the cart \<open>cid\<close> of user \<open>uid\<close>: the PENDING order whose total is the
  sum (in double arithmetic) of snapshotted price times quantity over the cart's items; one line item per cart
  item; every product's stock lowered by the quantity ordered of it; the cart's items
  deleted.
\<close>

definition placed_order :: "db \<Rightarrow> ident \<Rightarrow> CartItem list \<Rightarrow> string \<Rightarrow> string \<Rightarrow> Order" where
  "placed_order d uid its addr pay =
     \<lparr>order_id = next_id d, order_userId = uid,
      order_totalAmount = fsum (map cart_line_amount its),
      order_status = PENDING, order_shippingAddress = addr, order_paymentMethod = pay\<rparr>"

definition order_placed :: "db \<Rightarrow> ident \<Rightarrow> ident \<Rightarrow> string \<Rightarrow> string \<Rightarrow> db" where
  "order_placed d uid cid addr pay =
     (let its = cart_items d cid
      in d\<lparr>products := shift_stock (\<lambda>k. - ordered_quantity its k) (products d),
           cartItems := filter (\<lambda>i. ci_cartId i \<noteq> cid) (cartItems d),
           orders := orders d @ [placed_order d uid its addr pay],
           orderItems := orderItems d @ line_items (Suc (next_id d)) (next_id d) its,
           next_id := Suc (next_id d) + length its\<rparr>)"

text \<open>
  The same for a checkout \<open>co\<close> that a handler holds, whatever store it was read from:
  what the transaction of \<open>createOrder\<close> writes to the store \<open>d\<close> when it commits.
\<close>

definition checkout_order :: "db \<Rightarrow> ident \<Rightarrow> Checkout \<Rightarrow> Order" where
  "checkout_order d uid co =
     \<lparr>order_id = next_id d, order_userId = uid, order_totalAmount = co_totalAmount co,
      order_status = PENDING, order_shippingAddress = co_shippingAddress co,
      order_paymentMethod = co_paymentMethod co\<rparr>"

definition checkout_effect :: "db \<Rightarrow> ident \<Rightarrow> Checkout \<Rightarrow> db" where
  "checkout_effect d uid co =
     d\<lparr>products := shift_stock (\<lambda>k. - ordered_quantity (map fst (co_items co)) k) (products d),
       cartItems := filter (\<lambda>i. ci_cartId i \<noteq> cart_id (co_cart co)) (cartItems d),
       orders := orders d @ [checkout_order d uid co],
       orderItems := orderItems d @ line_items (Suc (next_id d)) (next_id d) (map fst (co_items co)),
       next_id := Suc (next_id d) + length (co_items co)\<rparr>"

text \<open>The store after the cancellation of order \<open>oid\<close>: the status set, the stock returned.\<close>

definition order_cancelled :: "db \<Rightarrow> ident \<Rightarrow> db" where
  "order_cancelled d oid =
     d\<lparr>products := shift_stock (returned_quantity (order_items d oid)) (products d),
       orders := map (\<lambda>x. if order_id x = oid then x\<lparr>order_status := CANCELLED\<rparr> else x) (orders d)\<rparr>"

text \<open>
  A well-formedness of stores that the cart and order handlers keep when they are served
  one after the other: no negative stock, product ids unique, every quantity in a cart
  or an order positive, and at most one line per product in a cart. The schema does not
  enforce the last two.
\<close>

definition store_ok :: "db \<Rightarrow> bool" where
  "store_ok d \<longleftrightarrow>
     (\<forall>p \<in> set (products d). 0 \<le> product_stock p) \<and>
     distinct (map product_id (products d)) \<and>
     (\<forall>i \<in> set (cartItems d). 0 < ci_quantity i) \<and>
     distinct (map (\<lambda>i. (ci_cartId i, ci_productId i)) (cartItems d)) \<and>
     (\<forall>i \<in> set (orderItems d). 0 < oi_quantity i)"

text \<open>
  Every stored order's total is the sum of price times quantity over its line items;
  \<open>order_keys\<close> lists the orders' ids with their totals.
\<close>

definition totals_ok :: "db \<Rightarrow> bool" where
  "totals_ok d \<longleftrightarrow>
     (\<forall>x \<in> set (orders d).
        order_totalAmount x =
          fsum (map order_line_amount (order_items d (order_id x))))"

definition order_keys :: "db \<Rightarrow> (ident \<times> double) list" where
  "order_keys d = map (\<lambda>x. (order_id x, order_totalAmount x)) (orders d)"

section \<open>Example stores\<close>

text \<open>
  \<open>shop\<close>: Alice's cart holds 2 Lamps snapshotted at the price 10 (the catalog price is
  12 by now) and 1 Desk at 5; both products have stock 5. \<open>pending_db\<close> is the shop
  after her order, \<open>shipped_db\<close> a store whose order has been shipped,
  \<open>lamp_db k\<close> a store whose cart asks for 6 units of product \<open>k\<close> with stock 5, and
  \<open>stale_checkout\<close> a checkout whose second product is no longer in the shop.
\<close>

definition alice :: User where
  "alice = \<lparr>user_id = 100, user_email = ''alice@example.org'', user_name = ''Alice''\<rparr>"

definition shop :: db where
  "shop = \<lparr>products = [\<lparr>product_id = 1, product_title = ''Lamp'', product_price = Finite 12, product_stock = 5\<rparr>,
                        \<lparr>product_id = 2, product_title = ''Desk'', product_price = Finite 5, product_stock = 5\<rparr>],
            carts = [\<lparr>cart_id = 10, cart_userId = 100\<rparr>],
            cartItems = [\<lparr>ci_id = 11, ci_cartId = 10, ci_productId = 1, ci_quantity = 2, ci_price = Finite 10\<rparr>,
                         \<lparr>ci_id = 12, ci_cartId = 10, ci_productId = 2, ci_quantity = 1, ci_price = Finite 5\<rparr>],
            orders = [], orderItems = [], next_id = 20\<rparr>"

definition order_body :: OrderBody where
  "order_body = \<lparr>body_shippingAddress = Present ''1 Main Street'', body_paymentMethod = Present ''card''\<rparr>"

definition shipped_db :: db where
  "shipped_db = \<lparr>products = [\<lparr>product_id = 1, product_title = ''Lamp'', product_price = Finite 12, product_stock = 3\<rparr>],
            carts = [\<lparr>cart_id = 10, cart_userId = 100\<rparr>],
            cartItems = [],
            orders = [\<lparr>order_id = 20, order_userId = 100, order_totalAmount = Finite 20, order_status = SHIPPED,
                       order_shippingAddress = ''1 Main Street'', order_paymentMethod = ''card''\<rparr>],
            orderItems = [\<lparr>oi_id = 21, oi_orderId = 20, oi_productId = 1, oi_quantity = 2, oi_price = Finite 10\<rparr>],
            next_id = 22\<rparr>"

definition bob :: User where
  "bob = \<lparr>user_id = 200, user_email = ''bob@example.org'', user_name = ''Bob''\<rparr>"

definition stale_checkout :: Checkout where
  "stale_checkout =
     \<lparr>co_cart = \<lparr>cart_id = 10, cart_userId = 100\<rparr>,
      co_items =
        [(\<lparr>ci_id = 11, ci_cartId = 10, ci_productId = 1, ci_quantity = 2, ci_price = Finite 10\<rparr>,
          \<lparr>product_id = 1, product_title = ''Lamp'', product_price = Finite 12, product_stock = 5\<rparr>),
         (\<lparr>ci_id = 13, ci_cartId = 10, ci_productId = 9, ci_quantity = 1, ci_price = Finite 7\<rparr>,
          \<lparr>product_id = 9, product_title = ''Vase'', product_price = Finite 7, product_stock = 4\<rparr>)],
      co_totalAmount = Finite 27, co_shippingAddress = ''1 Main Street'', co_paymentMethod = ''card''\<rparr>"

definition lamp_db :: "ident \<Rightarrow> db" where
  "lamp_db k = \<lparr>products = [\<lparr>product_id = k, product_title = ''Lamp'', product_price = Finite 12, product_stock = 5\<rparr>],
            carts = [\<lparr>cart_id = 10, cart_userId = 100\<rparr>],
            cartItems = [\<lparr>ci_id = 11, ci_cartId = 10, ci_productId = k, ci_quantity = 6, ci_price = Finite 12\<rparr>],
            orders = [], orderItems = [], next_id = 20\<rparr>"

definition pending_db :: db where
  "pending_db = \<lparr>products = [\<lparr>product_id = 1, product_title = ''Lamp'', product_price = Finite 12, product_stock = 3\<rparr>,
                        \<lparr>product_id = 2, product_title = ''Desk'', product_price = Finite 5, product_stock = 4\<rparr>],
            carts = [\<lparr>cart_id = 10, cart_userId = 100\<rparr>],
            cartItems = [],
            orders = [\<lparr>order_id = 20, order_userId = 100, order_totalAmount = Finite 25, order_status = PENDING,
                       order_shippingAddress = ''1 Main Street'', order_paymentMethod = ''card''\<rparr>],
            orderItems = [\<lparr>oi_id = 21, oi_orderId = 20, oi_productId = 1, oi_quantity = 2, oi_price = Finite 10\<rparr>,
                          \<lparr>oi_id = 22, oi_orderId = 20, oi_productId = 2, oi_quantity = 1, oi_price = Finite 5\<rparr>],
            next_id = 23\<rparr>"

text \<open>
  \<open>two_lines_db\<close>: a cart with two lines of 3 units for the same product, whose stock
  is 5 (the schema has no unique key on cart and product; two \<open>addToCart\<close> requests
  that both look for the line before either creates it leave such a cart).
  \<open>dime_db\<close>: a cart with 3 units of a product whose price is the double nearest to 0.1.
\<close>

definition two_lines_db :: db where
  "two_lines_db = \<lparr>products = [\<lparr>product_id = 1, product_title = ''Lamp'', product_price = Finite 12, product_stock = 5\<rparr>],
            carts = [\<lparr>cart_id = 10, cart_userId = 100\<rparr>],
            cartItems = [\<lparr>ci_id = 11, ci_cartId = 10, ci_productId = 1, ci_quantity = 3, ci_price = Finite 12\<rparr>,
                         \<lparr>ci_id = 12, ci_cartId = 10, ci_productId = 1, ci_quantity = 3, ci_price = Finite 12\<rparr>],
            orders = [], orderItems = [], next_id = 20\<rparr>"

definition dime :: rat where
  "dime = 3602879701896397 / 36028797018963968"

definition dime_db :: db where
  "dime_db = \<lparr>products = [\<lparr>product_id = 1, product_title = ''Dime'', product_price = Finite dime, product_stock = 5\<rparr>],
            carts = [\<lparr>cart_id = 10, cart_userId = 100\<rparr>],
            cartItems = [\<lparr>ci_id = 11, ci_cartId = 10, ci_productId = 1, ci_quantity = 3, ci_price = Finite dime\<rparr>],
            orders = [], orderItems = [], next_id = 20\<rparr>"

text \<open>
  The last unit: one product with stock 1, in the carts of two users. The two checkouts
  are what each handler holds after reading its cart from this store.
\<close>

definition last_unit_db :: db where
  "last_unit_db = \<lparr>products = [\<lparr>product_id = 1, product_title = ''Lamp'', product_price = Finite 12, product_stock = 1\<rparr>],
            carts = [\<lparr>cart_id = 10, cart_userId = 100\<rparr>, \<lparr>cart_id = 30, cart_userId = 200\<rparr>],
            cartItems = [\<lparr>ci_id = 11, ci_cartId = 10, ci_productId = 1, ci_quantity = 1, ci_price = Finite 12\<rparr>,
                         \<lparr>ci_id = 31, ci_cartId = 30, ci_productId = 1, ci_quantity = 1, ci_price = Finite 12\<rparr>],
            orders = [], orderItems = [], next_id = 40\<rparr>"

definition alice_checkout :: Checkout where
  "alice_checkout =
     \<lparr>co_cart = \<lparr>cart_id = 10, cart_userId = 100\<rparr>,
      co_items =
        [(\<lparr>ci_id = 11, ci_cartId = 10, ci_productId = 1, ci_quantity = 1, ci_price = Finite 12\<rparr>,
          \<lparr>product_id = 1, product_title = ''Lamp'', product_price = Finite 12, product_stock = 1\<rparr>)],
      co_totalAmount = Finite 12, co_shippingAddress = ''1 Main Street'', co_paymentMethod = ''card''\<rparr>"

definition bob_checkout :: Checkout where
  "bob_checkout =
     \<lparr>co_cart = \<lparr>cart_id = 30, cart_userId = 200\<rparr>,
      co_items =
        [(\<lparr>ci_id = 31, ci_cartId = 30, ci_productId = 1, ci_quantity = 1, ci_price = Finite 12\<rparr>,
          \<lparr>product_id = 1, product_title = ''Lamp'', product_price = Finite 12, product_stock = 1\<rparr>)],
      co_totalAmount = Finite 12, co_shippingAddress = ''1 Main Street'', co_paymentMethod = ''card''\<rparr>"

section \<open>Double arithmetic on the amounts of the examples\<close>

lemma amounts_10x2_5x1: "fsum [fmul (Finite 10) (double_of_int 2), fmul (Finite 5) (double_of_int 1)] = Finite 25"
  by code_simp

lemma amounts_12x1: "fadd (Finite 0) (fmul (Finite 12) (double_of_int 1)) = Finite 12"
  by code_simp

lemma amounts_12x3_12x3:
  "fadd (fadd (Finite 0) (fmul (Finite 12) (double_of_int 3))) (fmul (Finite 12) (double_of_int 3)) =
     Finite 72"
  by code_simp

text \<open>0.1 is not a double; the double nearest to it is \<open>dime\<close>, and three times \<open>dime\<close>
  is not a double either: the product rounds up.\<close>

lemma round_double_tenth: "round_double (1 / 10) = Finite dime"
  unfolding dime_def by code_simp

lemma amounts_dime_x3:
  "fadd (Finite 0) (fmul (Finite dime) (double_of_int 3)) =
     Finite (5404319552844596 / 18014398509481984)"
  unfolding dime_def by code_simp

section \<open>Facts about the store primitives\<close>


lemma product_findUnique_None_iff:
  "product_findUnique d pid = None \<longleftrightarrow> pid \<notin> product_id ` set (products d)"
  by (auto simp: product_findUnique_def find_None_iff)

lemma product_findUnique_Some_D:
  "product_findUnique d pid = Some p \<Longrightarrow> p \<in> set (products d) \<and> product_id p = pid"
  by (auto simp: product_findUnique_def find_Some_iff)

lemma find_adjust_stock:
  "find (\<lambda>p. product_id p = k) (adjust_stock pid n ps) =
     map_option (\<lambda>p. if k = pid then p\<lparr>product_stock := product_stock p + n\<rparr> else p)
       (find (\<lambda>p. product_id p = k) ps)"
  by (induction ps) (auto simp: adjust_stock_def)

lemma map_product_id_adjust_stock [simp]:
  "map product_id (adjust_stock pid n ps) = map product_id ps"
  by (induction ps) (auto simp: adjust_stock_def)

lemma image_product_id_adjust_stock [simp]:
  "product_id ` set (adjust_stock pid n ps) = product_id ` set ps"
  by (metis list.set_map map_product_id_adjust_stock)

lemma product_update_stock_Inr:
  "product_update_stock d pid n = Inr d' \<longleftrightarrow>
     pid \<in> product_id ` set (products d) \<and> d' = d\<lparr>products := adjust_stock pid n (products d)\<rparr>"
  by (auto simp: product_update_stock_def product_findUnique_None_iff
           dest: product_findUnique_Some_D split: option.splits)

lemma product_update_stock_Inl:
  "product_update_stock d pid n = Inl e \<longleftrightarrow>
     pid \<notin> product_id ` set (products d) \<and> e = PrismaError RecordNotFound"
  by (auto simp: product_update_stock_def product_findUnique_None_iff
           dest: product_findUnique_Some_D split: option.splits)

lemma include_product_Inr:
  "include_product d ref xs = Inr r \<Longrightarrow>
     map fst r = xs \<and> (\<forall>(x, p) \<in> set r. product_findUnique d (ref x) = Some p)"
  by (induction xs arbitrary: r) (auto split: option.splits sum.splits)

lemma include_product_products_cong:
  "products d' = products d \<Longrightarrow> include_product d' ref xs = include_product d ref xs"
  by (induction xs) (auto simp: product_findUnique_def split: option.splits sum.splits)

lemma include_product_total:
  "ref ` set xs \<subseteq> product_id ` set (products d) \<Longrightarrow> \<exists>r. include_product d ref xs = Inr r"
  by (induction xs) (auto simp: product_findUnique_None_iff split: option.splits sum.splits)

lemma checkStock_None:
  "checkStock its = None \<longleftrightarrow> (\<forall>(i, p) \<in> set its. ci_quantity i \<le> product_stock p)"
  by (induction its rule: checkStock.induct) auto


lemma shift_stock_adjust_stock:
  "shift_stock f (adjust_stock pid n ps) = shift_stock (\<lambda>k. (if k = pid then n else 0) + f k) ps"
  by (induction ps) (auto simp: shift_stock_def adjust_stock_def)

lemma createOrderItems_Inr:
  "ci_productId ` fst ` set items \<subseteq> product_id ` set (products d) \<Longrightarrow>
   createOrderItems d oid items =
     Inr (d\<lparr>products := shift_stock (\<lambda>k. - ordered_quantity (map fst items) k) (products d),
            orderItems := orderItems d @ line_items (next_id d) oid (map fst items),
            next_id := next_id d + length items\<rparr>)"
proof (induction items arbitrary: d)
  case Nil
  then show ?case by (simp add: shift_stock_def ordered_quantity_def)
next
  case (Cons a items)
  obtain i p where a: "a = (i, p)" by (cases a)
  let ?d1 = "(orderItem_create d oid (ci_productId i) (ci_quantity i) (ci_price i))
               \<lparr>products := adjust_stock (ci_productId i) (- ci_quantity i) (products d)\<rparr>"
  have upd: "product_update_stock (orderItem_create d oid (ci_productId i) (ci_quantity i) (ci_price i))
               (ci_productId i) (- ci_quantity i) = Inr ?d1"
    using Cons.prems by (simp add: a product_update_stock_Inr orderItem_create_def)
  have sub: "ci_productId ` fst ` set items \<subseteq> product_id ` set (products ?d1)"
    using Cons.prems by (simp add: a orderItem_create_def)
  have prods: "shift_stock (\<lambda>k. - ordered_quantity (map fst items) k)
                 (adjust_stock (ci_productId i) (- ci_quantity i) (products d)) =
               shift_stock (\<lambda>k. - ordered_quantity (i # map fst items) k) (products d)"
    unfolding shift_stock_adjust_stock
    by (rule arg_cong [where f = "\<lambda>f. shift_stock f (products d)"], rule ext)
       (simp add: ordered_quantity_def)
  have "createOrderItems d oid (a # items) = createOrderItems ?d1 oid items"
    by (simp add: a upd)
  also have "\<dots> = Inr (?d1\<lparr>products := shift_stock (\<lambda>k. - ordered_quantity (map fst items) k) (products ?d1),
            orderItems := orderItems ?d1 @ line_items (next_id ?d1) oid (map fst items),
            next_id := next_id ?d1 + length items\<rparr>)"
    by (rule Cons.IH [OF sub])
  also have "\<dots> = Inr (d\<lparr>products := shift_stock (\<lambda>k. - ordered_quantity (map fst (a # items)) k) (products d),
            orderItems := orderItems d @ line_items (next_id d) oid (map fst (a # items)),
            next_id := next_id d + length (a # items)\<rparr>)"
    by (simp add: a orderItem_create_def prods)
  finally show ?case .
qed

lemma createOrderItems_Inl:
  "createOrderItems d oid items = Inl e \<Longrightarrow>
     e = PrismaError RecordNotFound \<and> \<not> ci_productId ` fst ` set items \<subseteq> product_id ` set (products d)"
proof (induction items arbitrary: d)
  case Nil
  then show ?case by simp
next
  case (Cons a items)
  obtain i p where a: "a = (i, p)" by (cases a)
  show ?case
  proof (cases "ci_productId i \<in> product_id ` set (products d)")
    case False
    with Cons.prems show ?thesis
      by (auto simp: a product_update_stock_Inl product_update_stock_Inr orderItem_create_def
               split: sum.splits)
  next
    case True
    let ?d1 = "(orderItem_create d oid (ci_productId i) (ci_quantity i) (ci_price i))
                 \<lparr>products := adjust_stock (ci_productId i) (- ci_quantity i) (products d)\<rparr>"
    have upd: "product_update_stock (orderItem_create d oid (ci_productId i) (ci_quantity i) (ci_price i))
                 (ci_productId i) (- ci_quantity i) = Inr ?d1"
      using True by (simp add: product_update_stock_Inr orderItem_create_def)
    from Cons.prems have "createOrderItems ?d1 oid items = Inl e"
      by (simp add: a upd)
    from Cons.IH [OF this] show ?thesis
      by (auto simp: a orderItem_create_def)
  qed
qed

lemma returnStock_Inr:
  "oi_productId ` set its \<subseteq> product_id ` set (products d) \<Longrightarrow>
   returnStock d its = Inr (d\<lparr>products := shift_stock (returned_quantity its) (products d)\<rparr>)"
proof (induction its arbitrary: d)
  case Nil
  then show ?case by (simp add: shift_stock_def returned_quantity_def)
next
  case (Cons i its)
  let ?d1 = "d\<lparr>products := adjust_stock (oi_productId i) (oi_quantity i) (products d)\<rparr>"
  have upd: "product_update_stock d (oi_productId i) (oi_quantity i) = Inr ?d1"
    using Cons.prems by (simp add: product_update_stock_Inr)
  have sub: "oi_productId ` set its \<subseteq> product_id ` set (products ?d1)"
    using Cons.prems by simp
  have "(\<lambda>k. (if k = oi_productId i then oi_quantity i else 0) + returned_quantity its k) =
          returned_quantity (i # its)"
    by (rule ext) (simp add: returned_quantity_def)
  then show ?case
    by (simp add: upd Cons.IH [OF sub] shift_stock_adjust_stock)
qed

lemma returnStock_Inl:
  "returnStock d its = Inl e \<Longrightarrow>
     e = PrismaError RecordNotFound \<and> \<not> oi_productId ` set its \<subseteq> product_id ` set (products d)"
proof (induction its arbitrary: d)
  case Nil
  then show ?case by simp
next
  case (Cons i its)
  show ?case
  proof (cases "oi_productId i \<in> product_id ` set (products d)")
    case False
    with Cons.prems show ?thesis
      by (auto simp: product_update_stock_Inl product_update_stock_Inr split: sum.splits)
  next
    case True
    let ?d1 = "d\<lparr>products := adjust_stock (oi_productId i) (oi_quantity i) (products d)\<rparr>"
    have upd: "product_update_stock d (oi_productId i) (oi_quantity i) = Inr ?d1"
      using True by (simp add: product_update_stock_Inr)
    from Cons.prems have "returnStock ?d1 its = Inl e"
      by (simp add: upd)
    from Cons.IH [OF this] show ?thesis
      by auto
  qed
qed

section \<open>Facts about createOrder\<close>

lemma totalAmount_fsum:
  "totalAmount its = fsum (map cart_line_amount (map fst its))"
proof -
  have eq: "(\<lambda>sum (item, product). fadd sum (fmul (ci_price item) (double_of_int (ci_quantity item)))) =
            (\<lambda>s x. fadd s (cart_line_amount (fst x)))"
    by (intro ext) (simp add: case_prod_beta cart_line_amount_def)
  show ?thesis
    unfolding totalAmount_def eq fsum_def by (simp add: foldl_map)
qed

lemma createOrder_prepare_Inr:
  "createOrder_prepare d user body = Inr co \<longleftrightarrow>
     (\<exists>addr pay cart its.
        validateOrder body = Inr (addr, pay) \<and>
        cart_findUnique d (user_id user) = Some cart \<and>
        include_product d ci_productId (cart_items d (cart_id cart)) = Inr its \<and>
        its \<noteq> [] \<and> checkStock its = None \<and>
        co = \<lparr>co_cart = cart, co_items = its, co_totalAmount = totalAmount its,
              co_shippingAddress = addr, co_paymentMethod = pay\<rparr>)"
  by (auto simp: createOrder_prepare_def cart_findUnique_items_def
           split: sum.splits option.splits prod.splits)

lemma createOrder_tx_Inr:
  assumes "ci_productId ` fst ` set (co_items co) \<subseteq> product_id ` set (products d)"
  shows "createOrder_tx user co d =
           Inr (checkout_order d (user_id user) co, checkout_effect d (user_id user) co)"
proof -
  let ?d1 = "snd (order_create d (user_id user) (co_totalAmount co)
                    (co_shippingAddress co) (co_paymentMethod co))"
  have "ci_productId ` fst ` set (co_items co) \<subseteq> product_id ` set (products ?d1)"
    using assms by (simp add: order_create_def Let_def)
  from createOrderItems_Inr [OF this, of "next_id d"] show ?thesis
    by (simp add: createOrder_tx_def order_create_def Let_def cartItem_deleteMany_def
          checkout_order_def checkout_effect_def)
qed

lemma createOrder_tx_Inl:
  "createOrder_tx user co d = Inl e \<Longrightarrow>
     \<not> ci_productId ` fst ` set (co_items co) \<subseteq> product_id ` set (products d)"
proof -
  assume "createOrder_tx user co d = Inl e"
  then have "createOrderItems
               (snd (order_create d (user_id user) (co_totalAmount co)
                      (co_shippingAddress co) (co_paymentMethod co)))
               (next_id d) (co_items co) = Inl e"
    by (simp add: createOrder_tx_def order_create_def Let_def split: sum.splits)
  from createOrderItems_Inl [OF this] show ?thesis
    by (simp add: order_create_def Let_def)
qed


lemma filter_line_items [simp]:
  "filter (\<lambda>i. oi_orderId i = oid) (line_items n oid its) = line_items n oid its"
  by (induction its arbitrary: n) auto

lemma oi_productId_line_items [simp]:
  "map oi_productId (line_items n oid its) = map ci_productId its"
  by (induction its arbitrary: n) auto

lemma map_product_id_shift_stock [simp]:
  "map product_id (shift_stock f ps) = map product_id ps"
  by (simp add: shift_stock_def comp_def)

lemma image_product_id_shift_stock [simp]:
  "product_id ` set (shift_stock f ps) = product_id ` set ps"
  by (metis list.set_map map_product_id_shift_stock)

lemma find_append:
  "find P (xs @ ys) = (case find P xs of None \<Rightarrow> find P ys | Some x \<Rightarrow> Some x)"
  by (induction xs) auto

lemma createOrderItems_Inr_D:
  "createOrderItems d oid items = Inr d' \<Longrightarrow>
     ci_productId ` fst ` set items \<subseteq> product_id ` set (products d)"
proof (induction items arbitrary: d)
  case Nil
  then show ?case by simp
next
  case (Cons a items)
  obtain i p where a: "a = (i, p)" by (cases a)
  from Cons.prems obtain d1 where
    upd: "product_update_stock (orderItem_create d oid (ci_productId i) (ci_quantity i) (ci_price i))
            (ci_productId i) (- ci_quantity i) = Inr d1"
    and rest: "createOrderItems d1 oid items = Inr d'"
    by (auto simp: a split: sum.splits)
  from upd have "ci_productId i \<in> product_id ` set (products d)"
    and "product_id ` set (products d1) = product_id ` set (products d)"
    by (auto simp: product_update_stock_Inr orderItem_create_def)
  with Cons.IH [OF rest] show ?case by (simp add: a)
qed


lemma order_findUnique_items_Inr:
  "order_findUnique_items d oid = Inr (Some (ord, view)) \<Longrightarrow>
     order_findUnique d oid = Some ord \<and> map fst view = order_items d oid"
  by (auto simp: order_findUnique_items_def comp_def case_prod_beta
           split: option.splits sum.splits dest!: include_product_Inr)

lemma order_findUnique_items_total:
  "order_findUnique d oid = Some ord \<Longrightarrow>
   oi_productId ` set (order_items d oid) \<subseteq> product_id ` set (products d) \<Longrightarrow>
   \<exists>view. order_findUnique_items d oid = Inr (Some (ord, view))"
  using include_product_total [of oi_productId "order_items d oid" d]
  by (auto simp: order_findUnique_items_def)

lemma checkout_effect_readback:
  assumes "ids_fresh d"
  shows "order_findUnique (checkout_effect d uid co) (next_id d) = Some (checkout_order d uid co)"
    and "order_items (checkout_effect d uid co) (next_id d) =
           line_items (Suc (next_id d)) (next_id d) (map fst (co_items co))"
proof -
  have "find (\<lambda>x. order_id x = next_id d) (orders d) = None"
    using assms by (auto simp: ids_fresh_def find_None_iff)
  then show "order_findUnique (checkout_effect d uid co) (next_id d) = Some (checkout_order d uid co)"
    by (simp add: order_findUnique_def checkout_effect_def find_append checkout_order_def)
  have "filter (\<lambda>i. oi_orderId i = next_id d) (orderItems d) = []"
    using assms by (auto simp: ids_fresh_def filter_empty_conv)
  then show "order_items (checkout_effect d uid co) (next_id d) =
           line_items (Suc (next_id d)) (next_id d) (map fst (co_items co))"
    by (simp add: order_items_def checkout_effect_def)
qed

lemma createOrder_commit_Inr:
  assumes "ids_fresh d"
    and "ci_productId ` fst ` set (co_items co) \<subseteq> product_id ` set (products d)"
  shows "\<exists>view. createOrder_commit sgSend d user co =
           (Inr (Some (checkout_order d (user_id user) co, view)),
            checkout_effect d (user_id user) co,
            snd (sendEmail sgSend \<lparr>email_to = user_email user,
                   email_subject = ''Order Confirmation #'' @ show_nat (next_id d)\<rparr>)) \<and>
           map fst view = line_items (Suc (next_id d)) (next_id d) (map fst (co_items co))"
proof -
  let ?d' = "checkout_effect d (user_id user) co"
  let ?ord = "checkout_order d (user_id user) co"
  have tx: "transaction d (createOrder_tx user co) = (Inr ?ord, ?d')"
    by (simp add: transaction_def createOrder_tx_Inr [OF assms(2)])
  have "oi_productId ` set (order_items ?d' (next_id d)) \<subseteq> product_id ` set (products ?d')"
    using assms(2) set_map [of oi_productId "line_items (Suc (next_id d)) (next_id d) (map fst (co_items co))"]
    by (simp add: checkout_effect_readback [OF assms(1)] image_image del: set_map)
       (simp add: checkout_effect_def image_image)
  from order_findUnique_items_total [OF checkout_effect_readback(1) [OF assms(1)] this]
  obtain view where rb: "order_findUnique_items ?d' (next_id d) = Inr (Some (?ord, view))"
    by blast
  from order_findUnique_items_Inr [OF rb]
  have "map fst view = line_items (Suc (next_id d)) (next_id d) (map fst (co_items co))"
    by (simp add: checkout_effect_readback [OF assms(1)])
  moreover have "createOrder_commit sgSend d user co =
           (Inr (Some (?ord, view)), ?d',
            snd (sendEmail sgSend \<lparr>email_to = user_email user,
                   email_subject = ''Order Confirmation #'' @ show_nat (next_id d)\<rparr>))"
    using rb
    by (simp add: createOrder_commit_def tx checkout_order_def sendOrderConfirmationEmail_def
          split: prod.splits)
  ultimately show ?thesis by blast
qed

lemma createOrder_commit_Inl:
  assumes "ids_fresh d" and "createOrder_commit sgSend d user co = (Inl e, d', lg)"
  shows "d' = d \<and> lg = [] \<and>
         \<not> ci_productId ` fst ` set (co_items co) \<subseteq> product_id ` set (products d)"
proof (cases "ci_productId ` fst ` set (co_items co) \<subseteq> product_id ` set (products d)")
  case True
  from createOrder_commit_Inr [OF assms(1) True, of sgSend user] assms(2)
  show ?thesis by auto
next
  case False
  have "\<exists>e'. createOrder_tx user co d = Inl e'"
  proof (cases "createOrder_tx user co d")
    case (Inr r)
    then obtain d2 where "createOrderItems
               (snd (order_create d (user_id user) (co_totalAmount co)
                      (co_shippingAddress co) (co_paymentMethod co)))
               (next_id d) (co_items co) = Inr d2"
      by (auto simp: createOrder_tx_def order_create_def Let_def split: sum.splits)
    from createOrderItems_Inr_D [OF this] False show ?thesis
      by (simp add: order_create_def Let_def)
  qed blast
  then obtain e' where "createOrder_tx user co d = Inl e'" by blast
  with assms(2) False show ?thesis
    by (simp add: createOrder_commit_def transaction_def)
qed

lemma find_shift_stock:
  "find (\<lambda>p. product_id p = k) (shift_stock f ps) =
     map_option (\<lambda>p. p\<lparr>product_stock := product_stock p + f k\<rparr>)
       (find (\<lambda>p. product_id p = k) ps)"
  by (induction ps) (auto simp: shift_stock_def)

lemma product_findUnique_Some_mem:
  "product_findUnique d pid = Some p \<Longrightarrow> pid \<in> product_id ` set (products d)"
  using product_findUnique_None_iff [of d pid] by simp

lemma include_product_Inr_sub:
  "include_product d ref xs = Inr r \<Longrightarrow> ref ` fst ` set r \<subseteq> product_id ` set (products d)"
proof (induction xs arbitrary: r)
  case Nil
  then show ?case by simp
next
  case (Cons x xs)
  from Cons.prems obtain p r' where p: "product_findUnique d (ref x) = Some p"
    and r': "include_product d ref xs = Inr r'" and r: "r = (x, p) # r'"
    by (auto split: option.splits sum.splits)
  from product_findUnique_Some_mem [OF p] Cons.IH [OF r'] show ?case
    by (simp add: r)
qed

lemma checkout_matches_cart:
  assumes "include_product d ci_productId (cart_items d cid) = Inr its"
  shows "map fst its = cart_items d cid"
    and "checkStock its = None \<longleftrightarrow>
           (\<forall>i \<in> set (cart_items d cid). \<exists>p. product_findUnique d (ci_productId i) = Some p \<and>
               ci_quantity i \<le> product_stock p)"
proof -
  from include_product_Inr [OF assms]
  have m: "map fst its = cart_items d cid"
    and f: "\<forall>(x, p) \<in> set its. product_findUnique d (ci_productId x) = Some p"
    by auto
  show "map fst its = cart_items d cid" by (rule m)
  have "set (cart_items d cid) = fst ` set its"
    using m by (metis list.set_map)
  then show "checkStock its = None \<longleftrightarrow>
           (\<forall>i \<in> set (cart_items d cid). \<exists>p. product_findUnique d (ci_productId i) = Some p \<and>
               ci_quantity i \<le> product_stock p)"
    using f by (fastforce simp: checkStock_None)
qed

lemma createOrder_success:
  assumes fresh: "ids_fresh d"
    and body: "validateOrder body = Inr (addr, pay)"
    and cart: "cart_findUnique d (user_id user) = Some cart"
    and nonempty: "cart_items d (cart_id cart) \<noteq> []"
    and stock: "\<forall>i \<in> set (cart_items d (cart_id cart)).
                  \<exists>p. product_findUnique d (ci_productId i) = Some p \<and> ci_quantity i \<le> product_stock p"
  shows "\<exists>view. createOrder sgSend d user body =
           (Inr (Some (placed_order d (user_id user) (cart_items d (cart_id cart)) addr pay, view)),
            order_placed d (user_id user) (cart_id cart) addr pay,
            snd (sendEmail sgSend \<lparr>email_to = user_email user,
                   email_subject = ''Order Confirmation #'' @ show_nat (next_id d)\<rparr>)) \<and>
           map fst view = line_items (Suc (next_id d)) (next_id d) (cart_items d (cart_id cart))"
proof -
  let ?its = "cart_items d (cart_id cart)"
  have "ci_productId ` set ?its \<subseteq> product_id ` set (products d)"
    using stock by (auto dest!: bspec product_findUnique_Some_mem)
  from include_product_total [OF this]
  obtain r where r: "include_product d ci_productId ?its = Inr r" by blast
  note m = checkout_matches_cart [OF r]
  let ?co = "\<lparr>co_cart = cart, co_items = r, co_totalAmount = totalAmount r,
               co_shippingAddress = addr, co_paymentMethod = pay\<rparr>"
  have "r \<noteq> []" using m(1) nonempty by auto
  moreover have "checkStock r = None" using m(2) stock by simp
  ultimately have prep: "createOrder_prepare d user body = Inr ?co"
    using body cart r by (simp add: createOrder_prepare_Inr)
  have sub: "ci_productId ` fst ` set (co_items ?co) \<subseteq> product_id ` set (products d)"
    using include_product_Inr_sub [OF r] by simp
  have len: "length r = length ?its" using m(1) by (metis length_map)
  have ord: "checkout_order d (user_id user) ?co = placed_order d (user_id user) ?its addr pay"
    by (simp add: checkout_order_def placed_order_def totalAmount_fsum m(1))
  have eff: "checkout_effect d (user_id user) ?co = order_placed d (user_id user) (cart_id cart) addr pay"
    by (simp add: checkout_effect_def order_placed_def Let_def m(1) ord len)
  from createOrder_commit_Inr [OF fresh sub, of sgSend user] show ?thesis
    by (simp add: createOrder_def prep ord eff m(1))
qed

lemma createOrder_Inr_D:
  assumes "createOrder sgSend d user body = (Inr r, d', lg)"
  shows "\<exists>addr pay cart.
           validateOrder body = Inr (addr, pay) \<and>
           cart_findUnique d (user_id user) = Some cart \<and>
           cart_items d (cart_id cart) \<noteq> [] \<and>
           (\<forall>i \<in> set (cart_items d (cart_id cart)).
               \<exists>p. product_findUnique d (ci_productId i) = Some p \<and> ci_quantity i \<le> product_stock p)"
proof -
  from assms obtain co where prep: "createOrder_prepare d user body = Inr co"
    by (auto simp: createOrder_def split: sum.splits)
  then obtain addr pay cart its where
    "validateOrder body = Inr (addr, pay)"
    "cart_findUnique d (user_id user) = Some cart"
    and r: "include_product d ci_productId (cart_items d (cart_id cart)) = Inr its"
    and "its \<noteq> []" "checkStock its = None"
    by (auto simp: createOrder_prepare_Inr)
  moreover note m = checkout_matches_cart [OF r]
  ultimately show ?thesis
    by (metis list.map_disc_iff)
qed

lemma createOrder_Inl_D:
  assumes "ids_fresh d" and "createOrder sgSend d user body = (Inl e, d', lg)"
  shows "d' = d \<and> lg = []"
proof (cases "createOrder_prepare d user body")
  case (Inl e')
  with assms(2) show ?thesis by (simp add: createOrder_def)
next
  case (Inr co)
  with assms(2) have "createOrder_commit sgSend d user co = (Inl e, d', lg)"
    by (simp add: createOrder_def)
  from createOrder_commit_Inl [OF assms(1) this] show ?thesis by simp
qed

lemma order_placed_readback:
  assumes "ids_fresh d"
  shows "order_findUnique (order_placed d uid cid addr pay) (next_id d) =
           Some (placed_order d uid (cart_items d cid) addr pay)"
    and "order_items (order_placed d uid cid addr pay) (next_id d) =
           line_items (Suc (next_id d)) (next_id d) (cart_items d cid)"
proof -
  have "find (\<lambda>x. order_id x = next_id d) (orders d) = None"
    using assms by (auto simp: ids_fresh_def find_None_iff)
  then show "order_findUnique (order_placed d uid cid addr pay) (next_id d) =
           Some (placed_order d uid (cart_items d cid) addr pay)"
    by (simp add: order_findUnique_def order_placed_def Let_def find_append placed_order_def)
  have "filter (\<lambda>i. oi_orderId i = next_id d) (orderItems d) = []"
    using assms by (auto simp: ids_fresh_def filter_empty_conv)
  then show "order_items (order_placed d uid cid addr pay) (next_id d) =
           line_items (Suc (next_id d)) (next_id d) (cart_items d cid)"
    by (simp add: order_items_def order_placed_def Let_def)
qed

lemma createOrder_tx_Inr_D:
  assumes "createOrder_tx user co d = Inr r"
  shows "ci_productId ` fst ` set (co_items co) \<subseteq> product_id ` set (products d)"
proof -
  from assms obtain d2 where "createOrderItems
               (snd (order_create d (user_id user) (co_totalAmount co)
                      (co_shippingAddress co) (co_paymentMethod co)))
               (next_id d) (co_items co) = Inr d2"
    by (auto simp: createOrder_tx_def order_create_def Let_def split: sum.splits)
  from createOrderItems_Inr_D [OF this] show ?thesis
    by (simp add: order_create_def Let_def)
qed

lemma checkStock_append:
  "\<forall>(i, p) \<in> set xs. ci_quantity i \<le> product_stock p \<Longrightarrow> checkStock (xs @ ys) = checkStock ys"
  by (induction xs) auto

lemma createOrder_prepare_Inl:
  "createOrder_prepare d user body = Inl e \<Longrightarrow> createOrder sgSend d user body = (Inl e, d, [])"
  by (simp add: createOrder_def)

section \<open>Facts about cancelOrder\<close>

lemma find_map_preserved:
  "(\<And>x. P (f x) = P x) \<Longrightarrow> find P (map f xs) = map_option f (find P xs)"
  by (induction xs) auto

lemma shift_stock_shift_stock:
  "shift_stock f (shift_stock g ps) = shift_stock (\<lambda>k. g k + f k) ps"
  by (simp add: shift_stock_def comp_def add.assoc)

lemma shift_stock_zero [simp]: "shift_stock (\<lambda>k. 0) ps = ps"
  by (simp add: shift_stock_def)

lemma returned_quantity_line_items [simp]:
  "returned_quantity (line_items n oid its) k = ordered_quantity its k"
  by (induction its arbitrary: n) (auto simp: returned_quantity_def ordered_quantity_def)

lemma image_oi_productId_line_items [simp]:
  "oi_productId ` set (line_items n oid its) = ci_productId ` set its"
  by (metis list.set_map oi_productId_line_items)

lemma order_findFirst_Some_D:
  "order_findFirst d oid uid = Some ord \<Longrightarrow>
     ord \<in> set (orders d) \<and> order_id ord = oid \<and> order_userId ord = uid"
  by (auto simp: order_findFirst_def find_Some_iff)

lemma order_findUnique_exists:
  "x \<in> set (orders d) \<Longrightarrow> \<exists>y. order_findUnique d (order_id x) = Some y"
  by (cases "order_findUnique d (order_id x)") (auto simp: order_findUnique_def find_None_iff)

lemma cancelOrder_success:
  assumes own: "order_findFirst d oid (user_id user) = Some ord"
    and st: "order_status ord = PENDING \<or> order_status ord = PROCESSING"
    and prods: "oi_productId ` set (order_items d oid) \<subseteq> product_id ` set (products d)"
  shows "\<exists>x. order_findUnique d oid = Some x \<and>
           cancelOrder sgSend d user oid =
             (Inr (x\<lparr>order_status := CANCELLED\<rparr>), order_cancelled d oid,
              snd (sendEmail sgSend \<lparr>email_to = user_email user,
                     email_subject = ''Order Status Update #'' @ show_nat oid\<rparr>))"
proof -
  from order_findFirst_Some_D [OF own] order_findUnique_exists [of ord d]
  obtain x where x: "order_findUnique d oid = Some x" by auto
  let ?d1 = "d\<lparr>orders := map (\<lambda>x. if order_id x = oid then x\<lparr>order_status := CANCELLED\<rparr> else x)
                              (orders d)\<rparr>"
  have upd: "order_update_status d oid CANCELLED = Inr (x\<lparr>order_status := CANCELLED\<rparr>, ?d1)"
    by (simp add: order_update_status_def x)
  have "oi_productId ` set (order_items d oid) \<subseteq> product_id ` set (products ?d1)"
    using prods by simp
  from returnStock_Inr [OF this]
  have "cancelOrder_tx oid (order_items d oid) d =
          Inr (x\<lparr>order_status := CANCELLED\<rparr>, order_cancelled d oid)"
    by (simp add: cancelOrder_tx_def upd order_cancelled_def)
  then have "cancelOrder sgSend d user oid =
             (Inr (x\<lparr>order_status := CANCELLED\<rparr>), order_cancelled d oid,
              snd (sendEmail sgSend \<lparr>email_to = user_email user,
                     email_subject = ''Order Status Update #'' @ show_nat oid\<rparr>))"
    using st by (auto simp: cancelOrder_def own transaction_def sendOrderStatusUpdateEmail_def
                      split: prod.splits)
  with x show ?thesis by blast
qed

lemma order_findFirst_cancelled:
  assumes "order_findFirst d oid uid = Some ord"
  shows "order_findFirst (order_cancelled d oid) oid uid = Some (ord\<lparr>order_status := CANCELLED\<rparr>)"
proof -
  let ?f = "\<lambda>x. if order_id x = oid then x\<lparr>order_status := CANCELLED\<rparr> else x"
  have "find (\<lambda>x. order_id x = oid \<and> order_userId x = uid) (map ?f (orders d)) =
        map_option ?f (find (\<lambda>x. order_id x = oid \<and> order_userId x = uid) (orders d))"
    by (rule find_map_preserved) simp
  with assms order_findFirst_Some_D [OF assms] show ?thesis
    by (simp add: order_findFirst_def order_cancelled_def)
qed

lemma cancelOrder_again:
  assumes "order_findFirst d oid (user_id user) = Some ord"
  shows "cancelOrder sgSend (order_cancelled d oid) user oid =
           (Inl (ValidationError ''Order cannot be cancelled at this stage''), order_cancelled d oid, [])"
  by (simp add: cancelOrder_def order_findFirst_cancelled [OF assms])

lemma order_placed_findFirst:
  assumes "ids_fresh d"
  shows "order_findFirst (order_placed d uid cid addr pay) (next_id d) uid =
           Some (placed_order d uid (cart_items d cid) addr pay)"
proof -
  have "find (\<lambda>x. order_id x = next_id d \<and> order_userId x = uid) (orders d) = None"
    using assms by (auto simp: ids_fresh_def find_None_iff)
  then show ?thesis
    by (simp add: order_findFirst_def order_placed_def Let_def find_append placed_order_def)
qed

lemma cancel_after_place:
  assumes fresh: "ids_fresh d"
    and run: "createOrder sgSend d user body = (Inr r, d1, lg)"
  shows "\<exists>upd d2 lg2. cancelOrder sgSend' d1 user (next_id d) = (Inr upd, d2, lg2) \<and>
           order_status upd = CANCELLED \<and> products d2 = products d"
proof -
  from createOrder_Inr_D [OF run] obtain addr pay cart where
    c: "validateOrder body = Inr (addr, pay)" "cart_findUnique d (user_id user) = Some cart"
       "cart_items d (cart_id cart) \<noteq> []"
       "\<forall>i \<in> set (cart_items d (cart_id cart)).
          \<exists>p. product_findUnique d (ci_productId i) = Some p \<and> ci_quantity i \<le> product_stock p"
    by blast
  let ?its = "cart_items d (cart_id cart)"
  from createOrder_success [OF fresh c, of sgSend] run
  have d1: "d1 = order_placed d (user_id user) (cart_id cart) addr pay" by auto
  have own: "order_findFirst d1 (next_id d) (user_id user) =
               Some (placed_order d (user_id user) ?its addr pay)"
    unfolding d1 by (rule order_placed_findFirst [OF fresh])
  have st: "order_status (placed_order d (user_id user) ?its addr pay) = PENDING \<or>
            order_status (placed_order d (user_id user) ?its addr pay) = PROCESSING"
    by (simp add: placed_order_def)
  have items: "order_items d1 (next_id d) = line_items (Suc (next_id d)) (next_id d) ?its"
    unfolding d1 by (rule order_placed_readback(2) [OF fresh])
  have pd1: "products d1 = shift_stock (\<lambda>k. - ordered_quantity ?its k) (products d)"
    by (simp add: d1 order_placed_def Let_def)
  have "ci_productId ` set ?its \<subseteq> product_id ` set (products d)"
    using c(4) by (auto dest!: bspec product_findUnique_Some_mem)
  then have prods: "oi_productId ` set (order_items d1 (next_id d)) \<subseteq> product_id ` set (products d1)"
    by (simp add: items pd1)
  from cancelOrder_success [OF own st prods, of sgSend']
  obtain x where "cancelOrder sgSend' d1 user (next_id d) =
             (Inr (x\<lparr>order_status := CANCELLED\<rparr>), order_cancelled d1 (next_id d),
              snd (sendEmail sgSend' \<lparr>email_to = user_email user,
                     email_subject = ''Order Status Update #'' @ show_nat (next_id d)\<rparr>))"
    by blast
  moreover have "products (order_cancelled d1 (next_id d)) = products d"
    by (simp add: order_cancelled_def items pd1 shift_stock_shift_stock)
  ultimately show ?thesis by auto
qed

section \<open>The store after a request, and its well-formedness\<close>

lemma returnStock_Inr_D:
  "returnStock d its = Inr d' \<Longrightarrow> oi_productId ` set its \<subseteq> product_id ` set (products d)"
proof (induction its arbitrary: d)
  case Nil
  then show ?case by simp
next
  case (Cons i its)
  from Cons.prems obtain d1 where
    upd: "product_update_stock d (oi_productId i) (oi_quantity i) = Inr d1"
    and rest: "returnStock d1 its = Inr d'"
    by (auto split: sum.splits)
  from upd have "oi_productId i \<in> product_id ` set (products d)"
    and "product_id ` set (products d1) = product_id ` set (products d)"
    by (auto simp: product_update_stock_Inr)
  with Cons.IH [OF rest] show ?case by simp
qed

lemma checkout_effect_prepared:
  assumes "include_product d ci_productId (cart_items d (cart_id cart)) = Inr its"
  shows "checkout_effect d uid \<lparr>co_cart = cart, co_items = its, co_totalAmount = totalAmount its,
             co_shippingAddress = addr, co_paymentMethod = pay\<rparr> =
           order_placed d uid (cart_id cart) addr pay"
proof -
  note m = checkout_matches_cart(1) [OF assms]
  have len: "length its = length (cart_items d (cart_id cart))" using m by (metis length_map)
  show ?thesis
    by (simp add: checkout_effect_def order_placed_def Let_def m len checkout_order_def
          placed_order_def totalAmount_fsum)
qed

lemma createOrder_commit_store:
  "fst (snd (createOrder_commit sgSend d user co)) =
     (if ci_productId ` fst ` set (co_items co) \<subseteq> product_id ` set (products d)
      then checkout_effect d (user_id user) co else d)"
proof (cases "ci_productId ` fst ` set (co_items co) \<subseteq> product_id ` set (products d)")
  case True
  then show ?thesis
    by (simp add: createOrder_commit_def transaction_def createOrder_tx_Inr
          split: sum.splits prod.splits)
next
  case False
  then have "\<exists>e. createOrder_tx user co d = Inl e"
    using createOrder_tx_Inr_D [of user co d] by (cases "createOrder_tx user co d") auto
  with False show ?thesis
    by (auto simp: createOrder_commit_def transaction_def)
qed

lemma createOrder_store:
  "fst (snd (createOrder sgSend d user body)) = d \<or>
   (\<exists>addr pay cart.
      cart_findUnique d (user_id user) = Some cart \<and>
      (\<forall>i \<in> set (cart_items d (cart_id cart)).
          \<exists>p. product_findUnique d (ci_productId i) = Some p \<and> ci_quantity i \<le> product_stock p) \<and>
      fst (snd (createOrder sgSend d user body)) = order_placed d (user_id user) (cart_id cart) addr pay)"
proof (cases "createOrder_prepare d user body")
  case (Inl e)
  then show ?thesis by (simp add: createOrder_def)
next
  case (Inr co)
  then obtain addr pay cart its where
    c: "cart_findUnique d (user_id user) = Some cart"
    and r: "include_product d ci_productId (cart_items d (cart_id cart)) = Inr its"
    and cs: "checkStock its = None"
    and co: "co = \<lparr>co_cart = cart, co_items = its, co_totalAmount = totalAmount its,
              co_shippingAddress = addr, co_paymentMethod = pay\<rparr>"
    by (auto simp: createOrder_prepare_Inr)
  have sub: "ci_productId ` fst ` set (co_items co) \<subseteq> product_id ` set (products d)"
    using include_product_Inr_sub [OF r] by (simp add: co)
  have "fst (snd (createOrder sgSend d user body)) = order_placed d (user_id user) (cart_id cart) addr pay"
    using sub by (simp add: createOrder_def Inr createOrder_commit_store)
                 (simp add: co checkout_effect_prepared [OF r])
  with c cs checkout_matches_cart(2) [OF r] show ?thesis by blast
qed

lemma cancelOrder_store:
  "fst (snd (cancelOrder sgSend d user oid)) = d \<or>
   fst (snd (cancelOrder sgSend d user oid)) = order_cancelled d oid"
proof (cases "cancelOrder_tx oid (order_items d oid) d")
  case (Inl e)
  then show ?thesis
    by (simp add: cancelOrder_def transaction_def split: option.splits)
next
  case (Inr r)
  then obtain x d1 d2 where u: "order_update_status d oid CANCELLED = Inr (x, d1)"
    and rs: "returnStock d1 (order_items d oid) = Inr d2" and r: "r = (x, d2)"
    by (auto simp: cancelOrder_tx_def split: sum.splits)
  from u have d1: "d1 = d\<lparr>orders := map (\<lambda>x. if order_id x = oid then x\<lparr>order_status := CANCELLED\<rparr> else x)
                              (orders d)\<rparr>"
    by (auto simp: order_update_status_def split: option.splits)
  from returnStock_Inr [OF returnStock_Inr_D [OF rs]] rs
  have "d2 = order_cancelled d oid"
    by (auto simp: d1 order_cancelled_def)
  then show ?thesis
    by (simp add: cancelOrder_def transaction_def Inr r sendOrderStatusUpdateEmail_def
          split: option.splits prod.splits)
qed

lemma updateOrderStatus_store:
  "snd (updateOrderStatus d oid status) = d \<or>
   (\<exists>st. snd (updateOrderStatus d oid status) =
      d\<lparr>orders := map (\<lambda>x. if order_id x = oid then x\<lparr>order_status := st\<rparr> else x) (orders d)\<rparr>)"
  by (auto simp: updateOrderStatus_def order_update_status_def
           split: option.splits sum.splits prod.splits)

lemma find_distinct_key:
  "distinct (map f xs) \<Longrightarrow> x \<in> set xs \<Longrightarrow> find (\<lambda>y. f y = f x) xs = Some x"
  by (induction xs) force+

lemma ordered_quantity_distinct:
  "distinct (map ci_productId its) \<Longrightarrow>
     ordered_quantity its k =
       (case find (\<lambda>i. ci_productId i = k) its of None \<Rightarrow> 0 | Some i \<Rightarrow> ci_quantity i)"
proof (induction its)
  case Nil
  then show ?case by (simp add: ordered_quantity_def)
next
  case (Cons i its)
  show ?case
  proof (cases "ci_productId i = k")
    case True
    then have "filter (\<lambda>j. ci_productId j = k) its = []"
      using Cons.prems by (auto simp: filter_empty_conv) (metis image_eqI)
    with True show ?thesis by (simp add: ordered_quantity_def)
  next
    case False
    with Cons show ?thesis by (simp add: ordered_quantity_def)
  qed
qed

lemma distinct_cart_lines:
  assumes "distinct (map (\<lambda>i. (ci_cartId i, ci_productId i)) xs)"
  shows "distinct (map ci_productId (filter (\<lambda>i. ci_cartId i = cid) xs))"
proof -
  have "distinct (map (\<lambda>i. (ci_cartId i, ci_productId i)) (filter (\<lambda>i. ci_cartId i = cid) xs))"
    using assms by (rule distinct_map_filter)
  moreover have "map (\<lambda>i. (ci_cartId i, ci_productId i)) (filter (\<lambda>i. ci_cartId i = cid) xs) =
                 map (Pair cid) (map ci_productId (filter (\<lambda>i. ci_cartId i = cid) xs))"
    by (induction xs) auto
  ultimately have "distinct (map (Pair cid) (map ci_productId (filter (\<lambda>i. ci_cartId i = cid) xs)))"
    by simp
  then show ?thesis by (auto simp: distinct_map inj_on_def)
qed

lemma oi_quantity_line_items [simp]:
  "map oi_quantity (line_items n oid its) = map ci_quantity its"
  by (induction its arbitrary: n) auto

lemma store_ok_order_placed:
  assumes ok: "store_ok d"
    and stock: "\<forall>i \<in> set (cart_items d cid).
                  \<exists>p. product_findUnique d (ci_productId i) = Some p \<and> ci_quantity i \<le> product_stock p"
  shows "store_ok (order_placed d uid cid addr pay)"
proof -
  let ?its = "cart_items d cid"
  have dist: "distinct (map ci_productId ?its)"
    using ok by (simp add: store_ok_def cart_items_def distinct_cart_lines)
  have st: "0 \<le> product_stock q - ordered_quantity ?its (product_id q)" if q: "q \<in> set (products d)" for q
  proof (cases "find (\<lambda>i. ci_productId i = product_id q) ?its")
    case None
    with ok q show ?thesis by (simp add: ordered_quantity_distinct [OF dist] store_ok_def)
  next
    case (Some i)
    then have i: "i \<in> set ?its" and pid: "ci_productId i = product_id q"
      by (auto simp: find_Some_iff)
    from stock i obtain p where p: "product_findUnique d (ci_productId i) = Some p"
      and le: "ci_quantity i \<le> product_stock p" by blast
    have "product_findUnique d (product_id q) = Some q"
      using ok q by (simp add: product_findUnique_def store_ok_def find_distinct_key)
    with p pid have "p = q" by simp
    with le Some show ?thesis by (simp add: ordered_quantity_distinct [OF dist])
  qed
  have qty: "0 < oi_quantity i" if "i \<in> set (line_items (Suc (next_id d)) (next_id d) ?its)" for i
  proof -
    from that have "oi_quantity i \<in> set (map oi_quantity (line_items (Suc (next_id d)) (next_id d) ?its))"
      by (simp del: oi_quantity_line_items)
    then obtain c where "c \<in> set ?its" "oi_quantity i = ci_quantity c" by auto
    with ok show ?thesis by (auto simp: store_ok_def cart_items_def)
  qed
  show ?thesis
    using ok st qty
    by (auto simp: store_ok_def order_placed_def Let_def shift_stock_def distinct_map_filter comp_def)
qed

lemma returned_quantity_nonneg:
  "\<forall>i \<in> set its. 0 < oi_quantity i \<Longrightarrow> 0 \<le> returned_quantity its k"
  by (force simp: returned_quantity_def intro!: sum_list_nonneg)

lemma store_ok_order_cancelled:
  assumes "store_ok d"
  shows "store_ok (order_cancelled d oid)"
proof -
  have "0 \<le> returned_quantity (order_items d oid) k" for k
    using assms by (intro returned_quantity_nonneg) (simp add: store_ok_def order_items_def)
  then have "0 \<le> product_stock q + returned_quantity (order_items d oid) (product_id q)"
    if "q \<in> set (products d)" for q
    using assms that by (simp add: store_ok_def)
  with assms show ?thesis
    by (auto simp: store_ok_def order_cancelled_def shift_stock_def comp_def)
qed

lemma store_ok_cong:
  "products d' = products d \<Longrightarrow> cartItems d' = cartItems d \<Longrightarrow> orderItems d' = orderItems d \<Longrightarrow>
     store_ok d' = store_ok d"
  by (simp add: store_ok_def)

lemma store_ok_cartItem_update:
  assumes "store_ok d" and "0 < q"
  shows "store_ok (cartItem_update d iid q pr)"
proof -
  have eq: "(\<lambda>i. (ci_cartId i, ci_productId i)) \<circ>
          (\<lambda>i. if ci_id i = iid then i\<lparr>ci_quantity := q, ci_price := pr\<rparr> else i) =
        (\<lambda>i. (ci_cartId i, ci_productId i))"
    by (auto simp: fun_eq_iff)
  from assms show ?thesis
    by (auto simp: store_ok_def cartItem_update_def eq)
qed

lemma store_ok_cartItem_create:
  assumes "store_ok d" and "0 < q" and "cartItem_findFirst d cid pid = None"
  shows "store_ok (cartItem_create d cid pid q pr)"
  using assms
  by (auto simp: store_ok_def cartItem_create_def cartItem_findFirst_def find_None_iff)

lemma store_ok_cart_create: "store_ok (snd (cart_create d uid)) = store_ok d"
  by (simp add: cart_create_def Let_def store_ok_def)

lemma store_ok_addToCart:
  assumes "store_ok d"
  shows "store_ok (snd (addToCart d user body))"
proof (cases "validateCartItem body")
  case (Inl issues)
  with assms show ?thesis by (simp add: addToCart_def)
next
  case (Inr v)
  obtain productId quantity where v: "v = (productId, quantity)" by (cases v)
  from Inr have q: "0 < quantity"
    by (auto simp: validateCartItem_def zod_number_int_positive_def v Let_def
             split: field.splits id_text.splits double.splits if_splits)
  show ?thesis
  proof (cases "product_findUnique d productId")
    case None
    with assms show ?thesis by (simp add: addToCart_def Inr v)
  next
    case (Some product)
    obtain cart d1 where c: "(case cart_findUnique d (user_id user) of
                                None \<Rightarrow> cart_create d (user_id user) | Some c \<Rightarrow> (c, d)) = (cart, d1)"
      by (cases "case cart_findUnique d (user_id user) of
                   None \<Rightarrow> cart_create d (user_id user) | Some c \<Rightarrow> (c, d)")
    have ok1: "store_ok d1"
      using c assms store_ok_cart_create [of d "user_id user"]
      by (auto split: option.splits)
    show ?thesis
    proof (cases "cartItem_findFirst d1 (cart_id cart) productId")
      case None
      from store_ok_cartItem_create [OF ok1 q None] assms ok1 show ?thesis
        by (simp add: addToCart_def Inr v Some c None Let_def)
    next
      case (Some existingItem)
      then have "existingItem \<in> set (cartItems d1)"
        by (auto simp: cartItem_findFirst_def find_Some_iff)
      with ok1 have "0 < ci_quantity existingItem + quantity"
        using q by (auto simp: store_ok_def add_pos_pos)
      from store_ok_cartItem_update [OF ok1 this] assms ok1 show ?thesis
        by (simp add: addToCart_def Inr v \<open>product_findUnique d productId = Some product\<close> c Some Let_def)
    qed
  qed
qed

lemma store_ok_handle:
  assumes "store_ok d"
  shows "store_ok (handle sgSend d rq)"
proof (cases rq)
  case (AddToCart user body)
  with assms show ?thesis by (simp add: store_ok_addToCart)
next
  case (CreateOrder user body)
  with assms createOrder_store [of sgSend d user body] show ?thesis
    by (auto simp: store_ok_order_placed)
next
  case (CancelOrder user oid)
  with assms cancelOrder_store [of sgSend d user oid] show ?thesis
    by (auto simp: store_ok_order_cancelled)
next
  case (UpdateOrderStatus oid status)
  with assms updateOrderStatus_store [of d oid status] show ?thesis
    by (auto simp: store_ok_def)
qed

text \<open>
  Served one after the other from a well-formed store, the requests leave a well-formed
  store; in particular no stock becomes negative.
\<close>

lemma store_ok_serve:
  "store_ok d \<Longrightarrow> store_ok (serve sgSend d rs)"
  unfolding serve_def by (induction rs arbitrary: d) (simp_all add: store_ok_handle)

text \<open>A cart line that asks for more than the stock of its product is rejected.\<close>

lemma createOrder_rejects_shortage:
  assumes "cart_findUnique d (user_id user) = Some cart"
    and "item \<in> set (cart_items d (cart_id cart))"
    and "product_findUnique d (ci_productId item) = Some p"
    and "product_stock p < ci_quantity item"
  shows "\<exists>e. createOrder sgSend d user body = (Inl e, d, [])"
proof (cases "createOrder_prepare d user body")
  case (Inl e)
  then show ?thesis by (blast dest: createOrder_prepare_Inl)
next
  case (Inr co)
  then obtain its where
    r: "include_product d ci_productId (cart_items d (cart_id cart)) = Inr its"
    and cs: "checkStock its = None"
    using assms(1) by (auto simp: createOrder_prepare_Inr)
  from checkout_matches_cart(2) [OF r] cs assms(2)
  obtain p' where "product_findUnique d (ci_productId item) = Some p'"
    and "ci_quantity item \<le> product_stock p'" by blast
  with assms(3,4) show ?thesis by simp
qed

section \<open>Order totals\<close>

lemma filter_line_items_other:
  "oid' \<noteq> oid \<Longrightarrow> filter (\<lambda>i. oi_orderId i = oid') (line_items n oid its) = []"
  by (induction its arbitrary: n) auto

lemma oi_orderId_line_items:
  "i \<in> set (line_items n oid its) \<Longrightarrow> oi_orderId i = oid"
  by (induction its arbitrary: n) auto

lemma amount_line_items:
  "map order_line_amount (line_items n oid its) = map cart_line_amount its"
  by (induction its arbitrary: n) (auto simp: order_line_amount_def cart_line_amount_def)

lemma oi_price_line_items [simp]:
  "map oi_price (line_items n oid its) = map ci_price its"
  by (induction its arbitrary: n) auto

lemma totals_ok_order_placed:
  assumes t: "totals_ok d" and f: "ids_fresh d"
  shows "totals_ok (order_placed d uid cid addr pay)"
proof -
  let ?d' = "order_placed d uid cid addr pay"
  let ?new = "placed_order d uid (cart_items d cid) addr pay"
  have old: "order_items ?d' (order_id x) = order_items d (order_id x)" if "x \<in> set (orders d)" for x
  proof -
    from f that have "order_id x \<noteq> next_id d" by (auto simp: ids_fresh_def)
    then show ?thesis
      by (simp add: order_items_def order_placed_def Let_def filter_line_items_other)
  qed
  have new: "order_totalAmount ?new =
          fsum (map order_line_amount (order_items ?d' (order_id ?new)))"
    using order_placed_readback(2) [OF f, of uid cid addr pay]
    by (simp add: placed_order_def amount_line_items)
  have "orders ?d' = orders d @ [?new]" by (simp add: order_placed_def Let_def)
  with t old new show ?thesis by (auto simp: totals_ok_def)
qed

lemma ids_fresh_order_placed:
  assumes "ids_fresh d"
  shows "ids_fresh (order_placed d uid cid addr pay)"
  using assms
  by (auto simp: ids_fresh_def order_placed_def Let_def placed_order_def
           dest!: oi_orderId_line_items)

lemma order_items_status_update [simp]:
  "order_items (d\<lparr>orders := xs\<rparr>) oid = order_items d oid"
  by (simp add: order_items_def)

lemma totals_ok_status_update:
  assumes "totals_ok d"
  shows "totals_ok (d\<lparr>orders := map (\<lambda>x. if order_id x = oid then x\<lparr>order_status := st\<rparr> else x) (orders d)\<rparr>)"
  using assms by (auto simp: totals_ok_def)

lemma ids_fresh_status_update:
  assumes "ids_fresh d"
  shows "ids_fresh (d\<lparr>orders := map (\<lambda>x. if order_id x = oid then x\<lparr>order_status := st\<rparr> else x) (orders d)\<rparr>)"
  using assms by (auto simp: ids_fresh_def)

lemma order_cancelled_orders:
  "order_cancelled d oid =
     (d\<lparr>orders := map (\<lambda>x. if order_id x = oid then x\<lparr>order_status := CANCELLED\<rparr> else x) (orders d)\<rparr>)
       \<lparr>products := shift_stock (returned_quantity (order_items d oid)) (products d)\<rparr>"
  by (simp add: order_cancelled_def)

lemma totals_ok_products [simp]: "totals_ok (d\<lparr>products := ps\<rparr>) = totals_ok d"
  by (simp add: totals_ok_def order_items_def)

lemma ids_fresh_products [simp]: "ids_fresh (d\<lparr>products := ps\<rparr>) = ids_fresh d"
  by (simp add: ids_fresh_def)

lemma addToCart_orders:
  "orders (snd (addToCart d user body)) = orders d \<and>
   orderItems (snd (addToCart d user body)) = orderItems d \<and>
   next_id d \<le> next_id (snd (addToCart d user body))"
  by (auto simp: addToCart_def cart_create_def cartItem_update_def cartItem_create_def Let_def
           split: sum.splits option.splits prod.splits)

lemma orders_ok_cong:
  assumes "orders d' = orders d" and "orderItems d' = orderItems d" and "next_id d \<le> next_id d'"
  shows "totals_ok d \<Longrightarrow> totals_ok d'" and "ids_fresh d \<Longrightarrow> ids_fresh d'"
  using assms by (auto simp: totals_ok_def ids_fresh_def order_items_def)

lemma orders_ok_handle:
  assumes "totals_ok d \<and> ids_fresh d"
  shows "totals_ok (handle sgSend d rq) \<and> ids_fresh (handle sgSend d rq)"
proof (cases rq)
  case (AddToCart user body)
  with assms orders_ok_cong [of "snd (addToCart d user body)" d] addToCart_orders [of d user body]
  show ?thesis by simp
next
  case (CreateOrder user body)
  with assms createOrder_store [of sgSend d user body] show ?thesis
    by (auto simp: totals_ok_order_placed ids_fresh_order_placed)
next
  case (CancelOrder user oid)
  with assms cancelOrder_store [of sgSend d user oid] show ?thesis
    by (auto simp: order_cancelled_orders totals_ok_status_update ids_fresh_status_update)
next
  case (UpdateOrderStatus oid status)
  with assms updateOrderStatus_store [of d oid status] show ?thesis
    by (auto simp: totals_ok_status_update ids_fresh_status_update)
qed

lemma orders_ok_serve:
  "totals_ok d \<and> ids_fresh d \<Longrightarrow> totals_ok (serve sgSend d rs) \<and> ids_fresh (serve sgSend d rs)"
  unfolding serve_def
proof (induction rs arbitrary: d)
  case Nil
  then show ?case by simp
next
  case (Cons rq rs)
  from Cons.IH [OF orders_ok_handle [OF Cons.prems]] show ?case by simp
qed

lemma order_keys_status_update [simp]:
  "order_keys (d\<lparr>orders := map (\<lambda>x. if order_id x = oid then x\<lparr>order_status := st\<rparr> else x) (orders d)\<rparr>) =
     order_keys d"
  by (simp add: order_keys_def comp_def)

lemma order_keys_products [simp]: "order_keys (d\<lparr>products := ps\<rparr>) = order_keys d"
  by (simp add: order_keys_def)

lemma order_keys_handle:
  "\<exists>rest. order_keys (handle sgSend d rq) = order_keys d @ rest"
proof (cases rq)
  case (AddToCart user body)
  with addToCart_orders [of d user body] show ?thesis by (simp add: order_keys_def)
next
  case (CreateOrder user body)
  with createOrder_store [of sgSend d user body] show ?thesis
    by (auto simp: order_keys_def order_placed_def Let_def)
next
  case (CancelOrder user oid)
  with cancelOrder_store [of sgSend d user oid] show ?thesis
    by (auto simp: order_cancelled_orders)
next
  case (UpdateOrderStatus oid status)
  with updateOrderStatus_store [of d oid status] show ?thesis
    by auto
qed

lemma order_keys_serve:
  "\<exists>rest. order_keys (serve sgSend d rs) = order_keys d @ rest"
  unfolding serve_def
proof (induction rs arbitrary: d)
  case Nil
  then show ?case by simp
next
  case (Cons rq rs)
  from order_keys_handle [of sgSend d rq] obtain r1
    where r1: "order_keys (handle sgSend d rq) = order_keys d @ r1" by blast
  from Cons.IH [of "handle sgSend d rq"] obtain r2
    where "order_keys (foldl (handle sgSend) (handle sgSend d rq) rs) =
             order_keys (handle sgSend d rq) @ r2" by blast
  with r1 show ?case by simp
qed

lemma createOrder_snapshot:
  assumes fresh: "ids_fresh d"
    and run: "createOrder sgSend d user body = (Inr r, d', lg)"
  shows "\<exists>cart ord view.
           cart_findUnique d (user_id user) = Some cart \<and> r = Some (ord, view) \<and>
           order_findUnique d' (order_id ord) = Some ord \<and>
           map oi_price (order_items d' (order_id ord)) = map ci_price (cart_items d (cart_id cart)) \<and>
           map oi_quantity (order_items d' (order_id ord)) = map ci_quantity (cart_items d (cart_id cart)) \<and>
           order_totalAmount ord =
             fsum (map order_line_amount (order_items d' (order_id ord)))"
proof -
  from createOrder_Inr_D [OF run] obtain addr pay cart where
    c: "validateOrder body = Inr (addr, pay)" "cart_findUnique d (user_id user) = Some cart"
       "cart_items d (cart_id cart) \<noteq> []"
       "\<forall>i \<in> set (cart_items d (cart_id cart)).
          \<exists>p. product_findUnique d (ci_productId i) = Some p \<and> ci_quantity i \<le> product_stock p"
    by blast
  let ?its = "cart_items d (cart_id cart)"
  let ?ord = "placed_order d (user_id user) ?its addr pay"
  from createOrder_success [OF fresh c, of sgSend] run
  obtain view where r: "r = Some (?ord, view)"
    and d': "d' = order_placed d (user_id user) (cart_id cart) addr pay" by auto
  have oid: "order_id ?ord = next_id d" by (simp add: placed_order_def)
  have items: "order_items d' (order_id ?ord) = line_items (Suc (next_id d)) (next_id d) ?its"
    unfolding oid d' by (rule order_placed_readback(2) [OF fresh])
  have "order_findUnique d' (order_id ?ord) = Some ?ord"
    unfolding oid d' by (rule order_placed_readback(1) [OF fresh])
  moreover have "order_totalAmount ?ord =
             fsum (map order_line_amount (order_items d' (order_id ?ord)))"
    by (simp add: items amount_line_items) (simp add: placed_order_def)
  ultimately show ?thesis using c(2) r by (simp add: items)
qed

section \<open>Evaluation of the handlers on a concrete store\<close>

lemmas eval_defs =
  createOrder_def createOrder_prepare_def validateOrder_def order_body_def
  zod_string_min1_def cart_findUnique_items_def cart_findUnique_def cart_items_def
  product_findUnique_def createOrder_commit_def transaction_def
  createOrder_tx_def order_create_def orderItem_create_def product_update_stock_def
  adjust_stock_def cartItem_deleteMany_def order_findUnique_items_def order_findUnique_def
  order_items_def sendOrderConfirmationEmail_def sendEmail_def Let_def totalAmount_def

text \<open>Served one after the other, the two requests for the last unit sell it once.\<close>

lemma createOrder_in_turn_sells_once:
  "(\<exists>va. fst (createOrder (\<lambda>_. True) last_unit_db alice order_body) = Inr va) \<and>
   fst (createOrder (\<lambda>_. True) (fst (snd (createOrder (\<lambda>_. True) last_unit_db alice order_body)))
          bob order_body) =
     Inl (ValidationError ''Lamp has only 0 items in stock, but you requested 1'')"
  by (simp add: eval_defs last_unit_db_def alice_def bob_def show_int_def show_nat.simps digit_char_def)

section \<open>The claims\<close>

text \<open>
  Claim C1. A user's cart holds exactly two items, 2 units of product \<open>a\<close> at the
  snapshotted price 10 and 1 unit of product \<open>b\<close> at 5, and both products have
  stock 5. Then \<open>createOrder\<close> succeeds: the order it returns is PENDING with
  totalAmount 25, it is stored with one line item per cart item (same product, quantity
  and price), the stock of \<open>a\<close> is 3 and of \<open>b\<close> is 4 afterwards, and the cart has
  no items left. The request body is valid and the store's generated ids are unused.
\<close>

theorem createOrder_example_cart:
  assumes "ids_fresh d"
    and "validateOrder body = Inr (addr, pay)"
    and "cart_findUnique d (user_id user) = Some cart"
    and "cart_items d (cart_id cart) = [iA, iB]"
    and "ci_productId iA = a" and "ci_quantity iA = 2" and "ci_price iA = Finite 10"
    and "ci_productId iB = b" and "ci_quantity iB = 1" and "ci_price iB = Finite 5"
    and "a \<noteq> b"
    and "product_findUnique d a = Some pA" and "product_stock pA = 5"
    and "product_findUnique d b = Some pB" and "product_stock pB = 5"
  shows "\<exists>ord view d' lg.
           createOrder sgSend d user body = (Inr (Some (ord, view)), d', lg) \<and>
           order_status ord = PENDING \<and> order_totalAmount ord = Finite 25 \<and>
           order_userId ord = user_id user \<and>
           order_findUnique d' (order_id ord) = Some ord \<and>
           map fst view = order_items d' (order_id ord) \<and>
           map (\<lambda>i. (oi_productId i, oi_quantity i, oi_price i)) (order_items d' (order_id ord)) =
             [(a, 2, Finite 10), (b, 1, Finite 5)] \<and>
           map_option product_stock (product_findUnique d' a) = Some 3 \<and>
           map_option product_stock (product_findUnique d' b) = Some 4 \<and>
           cart_items d' (cart_id cart) = []"
proof -
  let ?its = "cart_items d (cart_id cart)"
  have stock: "\<forall>i \<in> set ?its. \<exists>p. product_findUnique d (ci_productId i) = Some p \<and>
                 ci_quantity i \<le> product_stock p"
    using assms by simp
  have ne: "?its \<noteq> []" using assms(4) by simp
  from createOrder_success [OF assms(1-3) ne stock, of sgSend]
  obtain view where
    run: "createOrder sgSend d user body =
            (Inr (Some (placed_order d (user_id user) ?its addr pay, view)),
             order_placed d (user_id user) (cart_id cart) addr pay,
             snd (sendEmail sgSend \<lparr>email_to = user_email user,
                    email_subject = ''Order Confirmation #'' @ show_nat (next_id d)\<rparr>))"
    and view: "map fst view = line_items (Suc (next_id d)) (next_id d) ?its"
    by blast
  let ?d' = "order_placed d (user_id user) (cart_id cart) addr pay"
  let ?ord = "placed_order d (user_id user) ?its addr pay"
  have oid: "order_id ?ord = next_id d" by (simp add: placed_order_def)
  have rb1: "order_findUnique ?d' (order_id ?ord) = Some ?ord"
    unfolding oid by (rule order_placed_readback(1) [OF assms(1)])
  have rb2: "order_items ?d' (order_id ?ord) = line_items (Suc (next_id d)) (next_id d) ?its"
    unfolding oid by (rule order_placed_readback(2) [OF assms(1)])
  have sa: "map_option product_stock (product_findUnique ?d' a) = Some 3"
    using assms
    by (simp add: order_placed_def Let_def product_findUnique_def find_shift_stock
          ordered_quantity_def)
  have sb: "map_option product_stock (product_findUnique ?d' b) = Some 4"
    using assms
    by (simp add: order_placed_def Let_def product_findUnique_def find_shift_stock
          ordered_quantity_def)
  have cart_empty: "cart_items ?d' (cart_id cart) = []"
    by (simp add: order_placed_def Let_def cart_items_def filter_empty_conv)
  have tot: "order_status ?ord = PENDING \<and> order_totalAmount ?ord = Finite 25 \<and>
             order_userId ?ord = user_id user"
    using assms by (simp add: placed_order_def cart_line_amount_def amounts_10x2_5x1)
  have lines: "map (\<lambda>i. (oi_productId i, oi_quantity i, oi_price i)) (order_items ?d' (order_id ?ord)) =
             [(a, 2, Finite 10), (b, 1, Finite 5)]"
    by (subst rb2) (simp add: assms(4-10))
  from run view rb1 rb2 sa sb cart_empty tot lines show ?thesis
    by (intro exI [of _ ?ord] exI [of _ view] exI [of _ ?d'] exI) simp
qed

theorem createOrder_example_cart_witness:
  "\<exists>ord view d' lg.
     createOrder (\<lambda>_. True) shop alice order_body = (Inr (Some (ord, view)), d', lg) \<and>
     order_status ord = PENDING \<and> order_totalAmount ord = Finite 25 \<and>
     map_option product_stock (product_findUnique d' 1) = Some 3 \<and>
     map_option product_stock (product_findUnique d' 2) = Some 4 \<and>
     cart_items d' 10 = []"
proof -
  have h1: "ids_fresh shop" by (simp add: ids_fresh_def shop_def)
  have h2: "validateOrder order_body = Inr (''1 Main Street'', ''card'')"
    by (simp add: validateOrder_def order_body_def zod_string_min1_def)
  have h3: "cart_findUnique shop (user_id alice) = Some \<lparr>cart_id = 10, cart_userId = 100\<rparr>"
    by (simp add: cart_findUnique_def shop_def alice_def)
  have h4: "cart_items shop (cart_id \<lparr>cart_id = 10, cart_userId = 100\<rparr>) =
      [\<lparr>ci_id = 11, ci_cartId = 10, ci_productId = 1, ci_quantity = 2, ci_price = Finite 10\<rparr>,
       \<lparr>ci_id = 12, ci_cartId = 10, ci_productId = 2, ci_quantity = 1, ci_price = Finite 5\<rparr>]"
    by (simp add: cart_items_def shop_def)
  have h5: "product_findUnique shop 1 =
      Some \<lparr>product_id = 1, product_title = ''Lamp'', product_price = Finite 12, product_stock = 5\<rparr>"
    by (simp add: product_findUnique_def shop_def)
  have h6: "product_findUnique shop 2 =
      Some \<lparr>product_id = 2, product_title = ''Desk'', product_price = Finite 5, product_stock = 5\<rparr>"
    by (simp add: product_findUnique_def shop_def)
  from createOrder_example_cart [OF h1 h2 h3 h4 _ _ _ _ _ _ _ h5 _ h6, of "\<lambda>_. True"]
  show ?thesis by simp blast
qed

text \<open>
  Claim C2. On a store whose generated ids are unused, a call of \<open>createOrder\<close> either
  fails and returns the store it was given, or succeeds and returns the store
  \<open>order_placed\<close>: the order record, one line item per cart item, every stock
  decrement and the deletion of the cart's items, all together. The same holds for the
  transactional part alone (\<open>createOrder_commit\<close>) on any checkout, also one whose
  products have disappeared since it was read: the failed transaction keeps nothing.
\<close>

theorem createOrder_all_or_nothing:
  assumes "ids_fresh d"
  shows "((\<exists>e. createOrder sgSend d user body = (Inl e, d, [])) \<or>
          (\<exists>addr pay cart view.
             validateOrder body = Inr (addr, pay) \<and>
             cart_findUnique d (user_id user) = Some cart \<and>
             createOrder sgSend d user body =
               (Inr (Some (placed_order d (user_id user) (cart_items d (cart_id cart)) addr pay, view)),
                order_placed d (user_id user) (cart_id cart) addr pay,
                snd (sendEmail sgSend \<lparr>email_to = user_email user,
                       email_subject = ''Order Confirmation #'' @ show_nat (next_id d)\<rparr>)))) \<and>
         ((\<exists>e. createOrder_commit sgSend d user co = (Inl e, d, [])) \<or>
          (\<exists>view. createOrder_commit sgSend d user co =
               (Inr (Some (checkout_order d (user_id user) co, view)),
                checkout_effect d (user_id user) co,
                snd (sendEmail sgSend \<lparr>email_to = user_email user,
                       email_subject = ''Order Confirmation #'' @ show_nat (next_id d)\<rparr>))))"
proof
  obtain r d' lg where run: "createOrder sgSend d user body = (r, d', lg)"
    by (cases "createOrder sgSend d user body")
  show "(\<exists>e. createOrder sgSend d user body = (Inl e, d, [])) \<or>
          (\<exists>addr pay cart view.
             validateOrder body = Inr (addr, pay) \<and>
             cart_findUnique d (user_id user) = Some cart \<and>
             createOrder sgSend d user body =
               (Inr (Some (placed_order d (user_id user) (cart_items d (cart_id cart)) addr pay, view)),
                order_placed d (user_id user) (cart_id cart) addr pay,
                snd (sendEmail sgSend \<lparr>email_to = user_email user,
                       email_subject = ''Order Confirmation #'' @ show_nat (next_id d)\<rparr>)))"
  proof (cases r)
    case (Inl e)
    with createOrder_Inl_D [OF assms] run show ?thesis by blast
  next
    case (Inr v)
    with createOrder_Inr_D run obtain addr pay cart where
      c: "validateOrder body = Inr (addr, pay)" "cart_findUnique d (user_id user) = Some cart"
         "cart_items d (cart_id cart) \<noteq> []"
         "\<forall>i \<in> set (cart_items d (cart_id cart)).
            \<exists>p. product_findUnique d (ci_productId i) = Some p \<and> ci_quantity i \<le> product_stock p"
      by blast
    from createOrder_success [OF assms c, of sgSend] c(1,2) show ?thesis by blast
  qed
next
  show "(\<exists>e. createOrder_commit sgSend d user co = (Inl e, d, [])) \<or>
          (\<exists>view. createOrder_commit sgSend d user co =
               (Inr (Some (checkout_order d (user_id user) co, view)),
                checkout_effect d (user_id user) co,
                snd (sendEmail sgSend \<lparr>email_to = user_email user,
                       email_subject = ''Order Confirmation #'' @ show_nat (next_id d)\<rparr>)))"
  proof (cases "ci_productId ` fst ` set (co_items co) \<subseteq> product_id ` set (products d)")
    case True
    from createOrder_commit_Inr [OF assms True, of sgSend user] show ?thesis by blast
  next
    case False
    obtain r d' lg where run: "createOrder_commit sgSend d user co = (r, d', lg)"
      by (cases "createOrder_commit sgSend d user co")
    show ?thesis
    proof (cases r)
      case (Inl e)
      with createOrder_commit_Inl [OF assms] run show ?thesis by blast
    next
      case (Inr v)
      with run False show ?thesis
        by (auto simp: createOrder_commit_def transaction_def
                 split: sum.splits prod.splits dest!: createOrder_tx_Inr_D)
    qed
  qed
qed

theorem createOrder_all_or_nothing_witness:
  "ids_fresh shop \<and>
   createOrder (\<lambda>_. True) shop bob order_body = (Inl (ValidationError ''Cart is empty''), shop, []) \<and>
   createOrder_commit (\<lambda>_. True) shop alice stale_checkout =
     (Inl (PrismaError RecordNotFound), shop, [])"
proof -
  have h: "ids_fresh shop" by (simp add: ids_fresh_def shop_def)
  have e1: "fst (createOrder (\<lambda>_. True) shop bob order_body) = Inl (ValidationError ''Cart is empty'')"
    by (simp add: createOrder_def createOrder_prepare_def validateOrder_def order_body_def
          zod_string_min1_def cart_findUnique_items_def cart_findUnique_def shop_def bob_def)
  have e2: "fst (createOrder_commit (\<lambda>_. True) shop alice stale_checkout) =
              Inl (PrismaError RecordNotFound)"
    by (simp add: createOrder_commit_def transaction_def createOrder_tx_def order_create_def
          stale_checkout_def orderItem_create_def product_update_stock_def product_findUnique_def
          adjust_stock_def shop_def alice_def Let_def)
  from createOrder_all_or_nothing [OF h, where sgSend = "\<lambda>_. True" and user = bob and body = order_body,
         THEN conjunct1]
       createOrder_all_or_nothing [OF h, where sgSend = "\<lambda>_. True" and user = alice and co = stale_checkout,
         THEN conjunct2]
       e1 e2 h
  show ?thesis by auto
qed

text \<open>
  Claim C3 says that no sequence of \<open>createOrder\<close> and \<open>cancelOrder\<close> requests makes a
  stock negative. \<open>createOrder\<close> compares each cart line with the stock on its own and
  then decrements the stock once per line. On \<open>two_lines_db\<close> the stock is 5 and the
  cart holds two lines of 3 units of the product: both lines pass the check, the order is
  placed, and the stock is -1.
\<close>

theorem createOrder_two_lines_oversell:
  "map product_stock (products two_lines_db) = [5] \<and>
   (\<exists>view. fst (createOrder (\<lambda>_. True) two_lines_db alice order_body) = Inr view) \<and>
   map product_stock (products (serve (\<lambda>_. True) two_lines_db [CreateOrder alice order_body])) = [- 1]"
  by (simp add: serve_def eval_defs two_lines_db_def alice_def amounts_12x3_12x3)

text \<open>
  Claim C4, as amended. When the cart's first item whose quantity exceeds the live stock
  of its product is \<open>item\<close> (every item before it is covered by the stock, and every
  item of the cart references a product that exists), \<open>createOrder\<close> fails with a
  ValidationError whose message gives the title of that item's product, the stock
  available and the quantity requested, and it returns the store unchanged. The message
  carries the product's title, not its id.
\<close>

theorem createOrder_insufficient_stock:
  assumes "validateOrder body = Inr (addr, pay)"
    and "cart_findUnique d (user_id user) = Some cart"
    and "cart_items d (cart_id cart) = pre @ item # post"
    and "\<forall>j \<in> set pre. \<exists>q. product_findUnique d (ci_productId j) = Some q \<and>
           ci_quantity j \<le> product_stock q"
    and "product_findUnique d (ci_productId item) = Some p"
    and "product_stock p < ci_quantity item"
    and "ci_productId ` set post \<subseteq> product_id ` set (products d)"
  shows "createOrder sgSend d user body =
           (Inl (ValidationError
                  (product_title p @ '' has only '' @ show_int (product_stock p) @
                   '' items in stock, but you requested '' @ show_int (ci_quantity item))),
            d, [])"
proof -
  let ?its = "cart_items d (cart_id cart)"
  have "ci_productId j \<in> product_id ` set (products d)" if "j \<in> set pre" for j
    using assms(4) that by (blast dest: product_findUnique_Some_mem)
  moreover have "ci_productId item \<in> product_id ` set (products d)"
    using assms(5) by (rule product_findUnique_Some_mem)
  ultimately have "ci_productId ` set ?its \<subseteq> product_id ` set (products d)"
    using assms(7) by (auto simp: assms(3))
  from include_product_total [OF this]
  obtain r where r: "include_product d ci_productId ?its = Inr r" by blast
  from include_product_Inr [OF r]
  have m: "map fst r = pre @ item # post"
    and f: "\<forall>(x, q) \<in> set r. product_findUnique d (ci_productId x) = Some q"
    by (auto simp: assms(3))
  from m obtain rpre x rpost where r_eq: "r = rpre @ x # rpost"
    and pre: "map fst rpre = pre" and x: "fst x = item"
    by (auto simp: map_eq_append_conv map_eq_Cons_conv)
  have "\<forall>(i, q) \<in> set rpre. ci_quantity i \<le> product_stock q"
  proof (clarify)
    fix i q assume iq: "(i, q) \<in> set rpre"
    then have "i \<in> set pre" using pre by force
    with assms(4) obtain q' where "product_findUnique d (ci_productId i) = Some q'"
      and "ci_quantity i \<le> product_stock q'" by blast
    moreover have "product_findUnique d (ci_productId i) = Some q"
      using f iq by (auto simp: r_eq)
    ultimately show "ci_quantity i \<le> product_stock q" by simp
  qed
  then have cs: "checkStock r = checkStock (x # rpost)"
    by (simp add: r_eq checkStock_append)
  have "x = (item, p)"
    using f x assms(5) by (cases x) (auto simp: r_eq)
  then have "checkStock r = Some (ValidationError
                  (product_title p @ '' has only '' @ show_int (product_stock p) @
                   '' items in stock, but you requested '' @ show_int (ci_quantity item)))"
    using assms(6) by (simp add: cs)
  moreover have "r \<noteq> []" by (simp add: r_eq)
  ultimately have "createOrder_prepare d user body = Inl (ValidationError
                  (product_title p @ '' has only '' @ show_int (product_stock p) @
                   '' items in stock, but you requested '' @ show_int (ci_quantity item)))"
    using assms(1,2) r
    by (simp add: createOrder_prepare_def cart_findUnique_items_def)
  then show ?thesis by (rule createOrder_prepare_Inl)
qed

theorem createOrder_insufficient_stock_witness:
  "createOrder (\<lambda>_. True) (lamp_db 1) alice order_body =
     (Inl (ValidationError ''Lamp has only 5 items in stock, but you requested 6''), lamp_db 1, [])"
proof -
  let ?c = "\<lparr>cart_id = 10, cart_userId = 100\<rparr>"
  let ?i = "\<lparr>ci_id = 11, ci_cartId = 10, ci_productId = 1, ci_quantity = 6, ci_price = Finite 12\<rparr>"
  let ?p = "\<lparr>product_id = 1, product_title = ''Lamp'', product_price = Finite 12, product_stock = 5\<rparr>"
  have h1: "validateOrder order_body = Inr (''1 Main Street'', ''card'')"
    by (simp add: validateOrder_def order_body_def zod_string_min1_def)
  have h2: "cart_findUnique (lamp_db 1) (user_id alice) = Some ?c"
    by (simp add: cart_findUnique_def lamp_db_def alice_def)
  have h3: "cart_items (lamp_db 1) (cart_id ?c) = [] @ ?i # []"
    by (simp add: cart_items_def lamp_db_def)
  have h4: "\<forall>j \<in> set []. \<exists>q. product_findUnique (lamp_db 1) (ci_productId j) = Some q \<and>
           ci_quantity j \<le> product_stock q" by simp
  have h5: "product_findUnique (lamp_db 1) (ci_productId ?i) = Some ?p"
    by (simp add: product_findUnique_def lamp_db_def)
  have h6: "product_stock ?p < ci_quantity ?i" by simp
  have h7: "ci_productId ` set [] \<subseteq> product_id ` set (products (lamp_db 1))" by simp
  have s5: "show_int 5 = ''5''" and s6: "show_int 6 = ''6''"
    by (simp_all add: show_int_def show_nat.simps digit_char_def)
  from createOrder_insufficient_stock [OF h1 h2 h3 h4 h5 h6 h7, of "\<lambda>_. True"]
  show ?thesis by (simp add: s5 s6)
qed

text \<open>
  Claim C4 as stated does not hold: the error does not report the product's identifier.
  Two stores that differ only in the id of the product (1 and 2, both titled Lamp, stock 5)
  and whose carts ask for 6 units of it get the same error.
\<close>

theorem createOrder_error_without_product_id:
  "fst (createOrder (\<lambda>_. True) (lamp_db 1) alice order_body) =
     fst (createOrder (\<lambda>_. True) (lamp_db 2) alice order_body) \<and>
   map ci_productId (cartItems (lamp_db 1)) = [1] \<and>
   map ci_productId (cartItems (lamp_db 2)) = [2]"
  by (simp add: createOrder_def createOrder_prepare_def validateOrder_def order_body_def
        zod_string_min1_def cart_findUnique_items_def cart_findUnique_def cart_items_def
        product_findUnique_def lamp_db_def alice_def)

text \<open>
  Claim C5, as amended. The total of an order is the sum over its line items of price
  times quantity as double arithmetic computes it: every product rounded to a double, the
  products added up from 0 in the order of the line items, every partial sum rounded
  (\<open>fsum\<close>, \<open>order_line_amount\<close>). On a store whose orders all have this total, it
  still holds after any sequence of requests; the requests only append orders and never
  change the id or the total of a stored order. The order that a successful
  \<open>createOrder\<close> stores has one line item per cart item with the cart item's snapshotted
  price and quantity (the catalog price is not read), and its total is this sum over
  these line items.
\<close>

theorem order_total_is_sum_of_line_items:
  "(totals_ok d \<and> ids_fresh d \<longrightarrow> totals_ok (serve sgSend d rs)) \<and>
   (\<exists>rest. order_keys (serve sgSend d rs) = order_keys d @ rest) \<and>
   (\<forall>r d' lg. ids_fresh d \<and> createOrder sgSend d user body = (Inr r, d', lg) \<longrightarrow>
      (\<exists>cart ord view.
           cart_findUnique d (user_id user) = Some cart \<and> r = Some (ord, view) \<and>
           order_findUnique d' (order_id ord) = Some ord \<and>
           map oi_price (order_items d' (order_id ord)) = map ci_price (cart_items d (cart_id cart)) \<and>
           map oi_quantity (order_items d' (order_id ord)) = map ci_quantity (cart_items d (cart_id cart)) \<and>
           order_totalAmount ord =
             fsum (map order_line_amount (order_items d' (order_id ord)))))"
  using orders_ok_serve [of d sgSend rs] order_keys_serve [of sgSend d rs]
    createOrder_snapshot [of d sgSend user body]
  by blast

theorem order_total_is_sum_of_line_items_witness:
  "totals_ok pending_db \<and> ids_fresh pending_db \<and>
   totals_ok (serve (\<lambda>_. False) pending_db
     [AddToCart alice \<lparr>body_productId = Present (IdText 1), body_quantity = Present (Finite 1)\<rparr>,
      CreateOrder alice order_body, CancelOrder alice 20]) \<and>
   (\<exists>ord view.
      fst (createOrder (\<lambda>_. True) shop alice order_body) = Inr (Some (ord, view)) \<and>
      map oi_price (order_items (fst (snd (createOrder (\<lambda>_. True) shop alice order_body))) (order_id ord)) =
        map ci_price (cart_items shop 10) \<and>
      order_totalAmount ord =
        fsum (map order_line_amount
          (order_items (fst (snd (createOrder (\<lambda>_. True) shop alice order_body))) (order_id ord))))"
proof -
  have h1: "totals_ok pending_db \<and> ids_fresh pending_db"
    by (simp add: totals_ok_def ids_fresh_def pending_db_def order_items_def order_line_amount_def
          amounts_10x2_5x1)
  have fresh: "ids_fresh shop" by (simp add: ids_fresh_def shop_def)
  obtain r d1 lg where run: "createOrder (\<lambda>_. True) shop alice order_body = (r, d1, lg)"
    by (cases "createOrder (\<lambda>_. True) shop alice order_body")
  have "\<exists>v. r = Inr v"
    using run
    by (auto simp add: createOrder_def createOrder_prepare_def validateOrder_def order_body_def
          zod_string_min1_def cart_findUnique_items_def cart_findUnique_def cart_items_def
          product_findUnique_def shop_def alice_def createOrder_commit_def transaction_def
          createOrder_tx_def order_create_def orderItem_create_def product_update_stock_def
          adjust_stock_def cartItem_deleteMany_def order_findUnique_items_def order_findUnique_def
          order_items_def sendOrderConfirmationEmail_def sendEmail_def Let_def totalAmount_def)
  then obtain v where run': "createOrder (\<lambda>_. True) shop alice order_body = (Inr v, d1, lg)"
    using run by auto
  have h2: "ids_fresh shop \<and> createOrder (\<lambda>_. True) shop alice order_body = (Inr v, d1, lg)"
    using fresh run' by simp
  have c: "cart_findUnique shop (user_id alice) = Some \<lparr>cart_id = 10, cart_userId = 100\<rparr>"
    by (simp add: cart_findUnique_def shop_def alice_def)
  from order_total_is_sum_of_line_items [where d = pending_db and sgSend = "\<lambda>_. False",
         THEN conjunct1, THEN mp, OF h1]
       order_total_is_sum_of_line_items [where d = shop and sgSend = "\<lambda>_. True" and user = alice
         and body = order_body, THEN conjunct2, THEN conjunct2,
         THEN spec, THEN spec, THEN spec, THEN mp, OF h2]
       h1 c
  show ?thesis by (auto simp: run')
qed

text \<open>
  Claim C5 as stated does not hold when the sum is the exact one: on \<open>dime_db\<close> the
  order has one line item, 3 units at the price \<open>dime\<close> (the double nearest to 0.1), and
  the stored total is the double 0.30000000000000004, which is not three times \<open>dime\<close>.
\<close>

theorem createOrder_total_is_rounded:
  "fst (createOrder (\<lambda>_. True) dime_db alice order_body) =
     Inr (Some (\<lparr>order_id = 20, order_userId = 100,
                  order_totalAmount = Finite (5404319552844596 / 18014398509481984),
                  order_status = PENDING, order_shippingAddress = ''1 Main Street'',
                  order_paymentMethod = ''card''\<rparr>,
                [(\<lparr>oi_id = 21, oi_orderId = 20, oi_productId = 1, oi_quantity = 3,
                   oi_price = Finite dime\<rparr>, 1, ''Dime'')])) \<and>
   5404319552844596 / 18014398509481984 \<noteq> dime * 3"
proof -
  have "5404319552844596 / 18014398509481984 \<noteq> dime * 3"
    by (simp add: dime_def)
  then show ?thesis
    by (simp add: eval_defs dime_db_def alice_def amounts_dime_x3)
qed

text \<open>
  Claim C6. For an order in status PENDING that belongs to the requesting user (its line
  items referencing products that exist), \<open>cancelOrder\<close> succeeds, returns the order
  with status CANCELLED and leaves the store \<open>order_cancelled\<close>: the status set to
  CANCELLED and every line item's quantity added back to its product's stock. A second
  \<open>cancelOrder\<close> then fails with the ValidationError "Order cannot be cancelled at this
  stage" (the invalid transition of the specification). After a successful
  \<open>createOrder\<close>, cancelling the new order gives back the product table as it was
  before the order.
\<close>

theorem cancelOrder_pending:
  "(\<forall>ord. order_findFirst d oid (user_id user) = Some ord \<and> order_status ord = PENDING \<and>
           oi_productId ` set (order_items d oid) \<subseteq> product_id ` set (products d) \<longrightarrow>
      (\<exists>upd lg. cancelOrder sgSend d user oid = (Inr upd, order_cancelled d oid, lg) \<and>
         order_status upd = CANCELLED \<and>
         order_findFirst (order_cancelled d oid) oid (user_id user) =
           Some (ord\<lparr>order_status := CANCELLED\<rparr>) \<and>
         cancelOrder sgSend' (order_cancelled d oid) user oid =
           (Inl (ValidationError ''Order cannot be cancelled at this stage''),
            order_cancelled d oid, []))) \<and>
   (\<forall>r d1 lg. ids_fresh d \<and> createOrder sgSend d user body = (Inr r, d1, lg) \<longrightarrow>
      (\<exists>upd d2 lg2. cancelOrder sgSend' d1 user (next_id d) = (Inr upd, d2, lg2) \<and>
         order_status upd = CANCELLED \<and> products d2 = products d))"
proof (intro conjI allI impI)
  fix ord
  assume a: "order_findFirst d oid (user_id user) = Some ord \<and> order_status ord = PENDING \<and>
           oi_productId ` set (order_items d oid) \<subseteq> product_id ` set (products d)"
  then have own: "order_findFirst d oid (user_id user) = Some ord"
    and st: "order_status ord = PENDING \<or> order_status ord = PROCESSING"
    and prods: "oi_productId ` set (order_items d oid) \<subseteq> product_id ` set (products d)"
    by simp_all
  from cancelOrder_success [OF own st prods, of sgSend]
       order_findFirst_cancelled [OF own] cancelOrder_again [OF own, of sgSend']
  show "\<exists>upd lg. cancelOrder sgSend d user oid = (Inr upd, order_cancelled d oid, lg) \<and>
         order_status upd = CANCELLED \<and>
         order_findFirst (order_cancelled d oid) oid (user_id user) =
           Some (ord\<lparr>order_status := CANCELLED\<rparr>) \<and>
         cancelOrder sgSend' (order_cancelled d oid) user oid =
           (Inl (ValidationError ''Order cannot be cancelled at this stage''),
            order_cancelled d oid, [])"
    by auto
next
  fix r d1 lg
  assume "ids_fresh d \<and> createOrder sgSend d user body = (Inr r, d1, lg)"
  then show "\<exists>upd d2 lg2. cancelOrder sgSend' d1 user (next_id d) = (Inr upd, d2, lg2) \<and>
         order_status upd = CANCELLED \<and> products d2 = products d"
    using cancel_after_place by blast
qed

theorem cancelOrder_pending_witness:
  "(\<exists>upd lg. cancelOrder (\<lambda>_. True) pending_db alice 20 =
       (Inr upd, order_cancelled pending_db 20, lg) \<and> order_status upd = CANCELLED) \<and>
   map product_stock (products (order_cancelled pending_db 20)) = [5, 5] \<and>
   map order_status (orders (order_cancelled pending_db 20)) = [CANCELLED] \<and>
   cancelOrder (\<lambda>_. True) (order_cancelled pending_db 20) alice 20 =
     (Inl (ValidationError ''Order cannot be cancelled at this stage''),
      order_cancelled pending_db 20, []) \<and>
   (\<exists>upd d2 lg2.
      cancelOrder (\<lambda>_. True) (fst (snd (createOrder (\<lambda>_. True) shop alice order_body))) alice 20 =
        (Inr upd, d2, lg2) \<and>
      order_status upd = CANCELLED \<and> products d2 = products shop)"
proof -
  let ?ord = "\<lparr>order_id = 20, order_userId = 100, order_totalAmount = Finite 25, order_status = PENDING,
                order_shippingAddress = ''1 Main Street'', order_paymentMethod = ''card''\<rparr>"
  have h1: "order_findFirst pending_db 20 (user_id alice) = Some ?ord \<and> order_status ?ord = PENDING \<and>
            oi_productId ` set (order_items pending_db 20) \<subseteq> product_id ` set (products pending_db)"
    by (simp add: order_findFirst_def pending_db_def alice_def order_items_def)
  note a = cancelOrder_pending [where d = pending_db and oid = 20 and user = alice
             and sgSend = "\<lambda>_. True" and sgSend' = "\<lambda>_. True",
             THEN conjunct1, THEN spec, THEN mp, OF h1]
  have st: "map product_stock (products (order_cancelled pending_db 20)) = [5, 5] \<and>
            map order_status (orders (order_cancelled pending_db 20)) = [CANCELLED]"
    by (simp add: order_cancelled_def pending_db_def shift_stock_def returned_quantity_def
          order_items_def)
  have fresh: "ids_fresh shop" by (simp add: ids_fresh_def shop_def)
  obtain r d1 lg where run: "createOrder (\<lambda>_. True) shop alice order_body = (r, d1, lg)"
    by (cases "createOrder (\<lambda>_. True) shop alice order_body")
  have "\<exists>v. r = Inr v"
    using run
    by (auto simp add: createOrder_def createOrder_prepare_def validateOrder_def order_body_def
          zod_string_min1_def cart_findUnique_items_def cart_findUnique_def cart_items_def
          product_findUnique_def shop_def alice_def createOrder_commit_def transaction_def
          createOrder_tx_def order_create_def orderItem_create_def product_update_stock_def
          adjust_stock_def cartItem_deleteMany_def order_findUnique_items_def order_findUnique_def
          order_items_def sendOrderConfirmationEmail_def sendEmail_def Let_def totalAmount_def)
  then obtain v where run': "createOrder (\<lambda>_. True) shop alice order_body = (Inr v, d1, lg)"
    using run by auto
  have h2: "ids_fresh shop \<and> createOrder (\<lambda>_. True) shop alice order_body = (Inr v, d1, lg)"
    using fresh run' by simp
  note b = cancelOrder_pending [where d = shop and user = alice and body = order_body
             and sgSend = "\<lambda>_. True" and sgSend' = "\<lambda>_. True",
             THEN conjunct2, THEN spec, THEN spec, THEN spec, THEN mp, OF h2]
  have n: "next_id shop = 20" by (simp add: shop_def)
  from a b st show ?thesis
    by (simp add: run' n) blast
qed

text \<open>
  Claim C7. \<open>cancelOrder\<close> fails with the NotFoundError "Order not found" when no order
  with the given id belongs to the requesting user, and with the ValidationError "Order
  cannot be cancelled at this stage" (the invalid transition of the specification) when
  the order is neither PENDING nor PROCESSING; whenever it fails, the store (order
  statuses and stocks included) is the one it was given.
\<close>

theorem cancelOrder_failures:
  "((\<forall>x \<in> set (orders d). \<not> (order_id x = oid \<and> order_userId x = user_id user)) \<longrightarrow>
      cancelOrder sgSend d user oid = (Inl (NotFoundError ''Order not found''), d, [])) \<and>
   (\<forall>ord. order_findFirst d oid (user_id user) = Some ord \<and>
          order_status ord \<noteq> PENDING \<and> order_status ord \<noteq> PROCESSING \<longrightarrow>
      cancelOrder sgSend d user oid =
        (Inl (ValidationError ''Order cannot be cancelled at this stage''), d, [])) \<and>
   (\<forall>e d' lg. cancelOrder sgSend d user oid = (Inl e, d', lg) \<longrightarrow> d' = d)"
proof (intro conjI impI allI)
  assume "\<forall>x \<in> set (orders d). \<not> (order_id x = oid \<and> order_userId x = user_id user)"
  then have "order_findFirst d oid (user_id user) = None"
    by (simp add: order_findFirst_def find_None_iff)
  then show "cancelOrder sgSend d user oid = (Inl (NotFoundError ''Order not found''), d, [])"
    by (simp add: cancelOrder_def)
next
  fix ord
  assume "order_findFirst d oid (user_id user) = Some ord \<and>
          order_status ord \<noteq> PENDING \<and> order_status ord \<noteq> PROCESSING"
  then show "cancelOrder sgSend d user oid =
        (Inl (ValidationError ''Order cannot be cancelled at this stage''), d, [])"
    by (simp add: cancelOrder_def)
next
  fix e d' lg
  assume "cancelOrder sgSend d user oid = (Inl e, d', lg)"
  then show "d' = d"
    by (auto simp: cancelOrder_def transaction_def
             split: option.splits if_splits sum.splits prod.splits)
qed

theorem cancelOrder_failures_witness:
  "cancelOrder (\<lambda>_. True) shipped_db bob 20 = (Inl (NotFoundError ''Order not found''), shipped_db, []) \<and>
   cancelOrder (\<lambda>_. True) shipped_db alice 20 =
     (Inl (ValidationError ''Order cannot be cancelled at this stage''), shipped_db, []) \<and>
   map product_stock (products shipped_db) = [3]"
proof -
  have h1: "\<forall>x \<in> set (orders shipped_db). \<not> (order_id x = 20 \<and> order_userId x = user_id bob)"
    by (simp add: shipped_db_def bob_def)
  have h2: "order_findFirst shipped_db 20 (user_id alice) =
              Some \<lparr>order_id = 20, order_userId = 100, order_totalAmount = Finite 20, order_status = SHIPPED,
                    order_shippingAddress = ''1 Main Street'', order_paymentMethod = ''card''\<rparr> \<and>
            order_status \<lparr>order_id = 20, order_userId = 100, order_totalAmount = Finite 20, order_status = SHIPPED,
                    order_shippingAddress = ''1 Main Street'', order_paymentMethod = ''card''\<rparr> \<noteq> PENDING \<and>
            order_status \<lparr>order_id = 20, order_userId = 100, order_totalAmount = Finite 20, order_status = SHIPPED,
                    order_shippingAddress = ''1 Main Street'', order_paymentMethod = ''card''\<rparr> \<noteq> PROCESSING"
    by (simp add: order_findFirst_def shipped_db_def alice_def)
  note c = cancelOrder_failures [of shipped_db 20 bob "\<lambda>_. True"]
  note c' = cancelOrder_failures [of shipped_db 20 alice "\<lambda>_. True"]
  from c [THEN conjunct1, THEN mp, OF h1]
       c' [THEN conjunct2, THEN conjunct1, THEN spec, THEN mp, OF h2]
  show ?thesis by (simp add: shipped_db_def)
qed

text \<open>
  Claim C8 says that of two concurrent \<open>createOrder\<close> calls for the last unit of a
  product exactly one succeeds. The handler reads the cart and checks the stock before it
  opens the transaction, and the transaction decrements the stock unconditionally. When
  both handlers have read the store before either transaction runs, both checks pass,
  both transactions commit: two orders are stored and the stock is -1.
\<close>

theorem createOrder_interleaved_oversells:
  "createOrder_prepare last_unit_db alice order_body = Inr alice_checkout \<and>
   createOrder_prepare last_unit_db bob order_body = Inr bob_checkout \<and>
   (\<exists>va vb.
      fst (createOrder_commit (\<lambda>_. True) last_unit_db alice alice_checkout) = Inr va \<and>
      fst (createOrder_commit (\<lambda>_. True)
             (fst (snd (createOrder_commit (\<lambda>_. True) last_unit_db alice alice_checkout)))
             bob bob_checkout) = Inr vb) \<and>
   map product_stock (products (fst (snd (createOrder_commit (\<lambda>_. True)
             (fst (snd (createOrder_commit (\<lambda>_. True) last_unit_db alice alice_checkout)))
             bob bob_checkout)))) = [- 1] \<and>
   map order_userId (orders (fst (snd (createOrder_commit (\<lambda>_. True)
             (fst (snd (createOrder_commit (\<lambda>_. True) last_unit_db alice alice_checkout)))
             bob bob_checkout)))) = [100, 200]"
  by (simp add: eval_defs last_unit_db_def alice_def bob_def alice_checkout_def bob_checkout_def
        amounts_12x1)

text \<open>
  Claim C9. The reply of \<open>createOrder\<close> and the store it leaves do not depend on the
  outcome of the confirmation mail: a delivery that fails neither fails the call nor
  undoes the order, the stock decrements or the clearing of the cart.
\<close>

theorem createOrder_mail_outcome_irrelevant:
  "fst (createOrder sgSend d user body) = fst (createOrder sgSend' d user body) \<and>
   fst (snd (createOrder sgSend d user body)) = fst (snd (createOrder sgSend' d user body))"
  by (simp add: createOrder_def createOrder_commit_def sendOrderConfirmationEmail_def
        sendEmail_def split: sum.splits prod.splits option.splits)

text \<open>
  Claim C10. When the user's cart already holds an item for the product, a further
  \<open>addToCart\<close> that passes the stock checks adds the requested quantity to that item and
  overwrites its price with the product's current catalog price; nothing else in the
  store changes.
\<close>

theorem addToCart_existing_item:
  assumes "body_productId body = Present (IdText pid)"
    and "body_quantity body = Present (Finite (of_int q))" and "0 < q"
    and "product_findUnique d pid = Some product"
    and "cart_findUnique d (user_id user) = Some cart"
    and "cartItem_findFirst d (cart_id cart) pid = Some existing"
    and "ci_quantity existing + q \<le> product_stock product"
    and "q \<le> product_stock product"
  shows "snd (addToCart d user body) =
           d\<lparr>cartItems := map (\<lambda>i. if ci_id i = ci_id existing
                                    then i\<lparr>ci_quantity := ci_quantity existing + q,
                                           ci_price := product_price product\<rparr>
                                    else i) (cartItems d)\<rparr> \<and>
         cartItem_findFirst (snd (addToCart d user body)) (cart_id cart) pid =
           Some (existing\<lparr>ci_quantity := ci_quantity existing + q,
                          ci_price := product_price product\<rparr>)"
proof -
  let ?f = "\<lambda>i. if ci_id i = ci_id existing
                 then i\<lparr>ci_quantity := ci_quantity existing + q, ci_price := product_price product\<rparr>
                 else i"
  have v: "validateCartItem body = Inr (pid, q)"
    using assms(1-3) by (simp add: validateCartItem_def zod_number_int_positive_def)
  have st: "snd (addToCart d user body) = d\<lparr>cartItems := map ?f (cartItems d)\<rparr>"
    using assms(4-8) by (simp add: addToCart_def v Let_def cartItem_update_def)
  have fm: "find (\<lambda>i. ci_cartId i = cart_id cart \<and> ci_productId i = pid) (map ?f xs) =
        map_option ?f (find (\<lambda>i. ci_cartId i = cart_id cart \<and> ci_productId i = pid) xs)" for xs
    by (induction xs) auto
  have "cartItem_findFirst (d\<lparr>cartItems := map ?f (cartItems d)\<rparr>) (cart_id cart) pid =
             Some (?f existing)"
    using assms(6) by (simp add: cartItem_findFirst_def fm)
  then show ?thesis by (simp add: st)
qed

theorem addToCart_existing_item_witness:
  "snd (addToCart shop alice \<lparr>body_productId = Present (IdText 1), body_quantity = Present (Finite 3)\<rparr>) =
     shop\<lparr>cartItems :=
       [\<lparr>ci_id = 11, ci_cartId = 10, ci_productId = 1, ci_quantity = 5, ci_price = Finite 12\<rparr>,
        \<lparr>ci_id = 12, ci_cartId = 10, ci_productId = 2, ci_quantity = 1, ci_price = Finite 5\<rparr>]\<rparr>"
proof -
  let ?body = "\<lparr>body_productId = Present (IdText 1), body_quantity = Present (Finite 3)\<rparr>"
  let ?p = "\<lparr>product_id = 1, product_title = ''Lamp'', product_price = Finite 12, product_stock = 5\<rparr>"
  let ?c = "\<lparr>cart_id = 10, cart_userId = 100\<rparr>"
  let ?e = "\<lparr>ci_id = 11, ci_cartId = 10, ci_productId = 1, ci_quantity = 2, ci_price = Finite 10\<rparr>"
  have h1: "body_productId ?body = Present (IdText 1)"
    "body_quantity ?body = Present (Finite (of_int 3))" "(0::int) < 3" by simp_all
  have h2: "product_findUnique shop 1 = Some ?p" by (simp add: product_findUnique_def shop_def)
  have h3: "cart_findUnique shop (user_id alice) = Some ?c"
    by (simp add: cart_findUnique_def shop_def alice_def)
  have h4: "cartItem_findFirst shop (cart_id ?c) 1 = Some ?e"
    by (simp add: cartItem_findFirst_def shop_def)
  have h5: "ci_quantity ?e + 3 \<le> product_stock ?p" "3 \<le> product_stock ?p" by simp_all
  from addToCart_existing_item [OF h1 h2 h3 h4 h5, THEN conjunct1]
  show ?thesis by (simp add: shop_def)
qed

end
